theory Spec2Isabelle
  imports Main
begin

section \<open>The session orchestrator of bot.go\<close>

text \<open>
  A shallow embedding of the methods of \<^verbatim>\<open>Bot\<close> in \<^verbatim>\<open>src/bot.go\<close>: \<^verbatim>\<open>Alive\<close>,
  \<^verbatim>\<open>Logout\<close>, \<^verbatim>\<open>WebInit\<close> and the loop it starts, \<^verbatim>\<open>syncCheck\<close>, \<^verbatim>\<open>syncMessage\<close>,
  \<^verbatim>\<open>Block\<close>, \<^verbatim>\<open>Exit\<close>, \<^verbatim>\<open>DumpTo\<close>, \<^verbatim>\<open>reload\<close>, \<^verbatim>\<open>NewBot\<close> and
  \<^verbatim>\<open>defaultSyncCheckErrHandler\<close>.

  Conventions.
  \<^item> The receiver \<^verbatim>\<open>b *Bot\<close> is mutated in place by the Go code; here every method takes
    the bot and returns the new one.
  \<^item> A Go \<^verbatim>\<open>error\<close> result is an \<open>error option\<close>, \<open>None\<close> being \<^verbatim>\<open>nil\<close>; a pointer
    that may be \<^verbatim>\<open>nil\<close> is an option as well.
  \<^item> The transport (\<^verbatim>\<open>b.Caller\<close>), the response types with their methods and the
    status codes of type \<^verbatim>\<open>Ret\<close> are declared outside bot.go. They are parameters,
    collected in the record \<open>Env\<close>. A transport call may answer differently every time:
    it receives the number of transport calls made before it, and the client.
  \<^item> The text of a snapshot and the cookie store are declared outside bot.go as well.
    They are modelled from the description of the snapshot, where they are defined.
  \<^item> The bot carries two fields that the Go struct does not have: \<open>tick\<close>, the number of
    transport calls made so far, and \<open>trace\<close>, the log of everything the bot did that
    is visible from outside (transport calls, hook invocations, the cursor store, the
    start of the loop). The hooks are user code; the model records that they ran and
    takes them to leave the bot alone. The message handler receives the bot with each
    message (\<^verbatim>\<open>message.init(b)\<close>), and its log entry keeps the cursor it finds there.
  \<^item> The loops of \<^verbatim>\<open>syncCheck\<close> and of the background task may run forever. They take
    fuel, one unit per iteration, and return \<open>None\<close> when it is used up.
\<close>

subsection \<open>Errors\<close>

type_synonym Ret = int

text \<open>
  The error values that reach bot.go: a status code of type \<^verbatim>\<open>Ret\<close> (which implements
  \<^verbatim>\<open>error\<close>), an \<^verbatim>\<open>errors.New\<close> text, or an error that wraps another one.
\<close>

datatype error = RetError Ret | ErrorString string | WrapError string error

text \<open>\<^verbatim>\<open>errors.As(err, &ret)\<close> with \<^verbatim>\<open>ret\<close> of type \<^verbatim>\<open>Ret\<close>: the first status code in the chain.\<close>

fun errors_As :: "error \<Rightarrow> Ret option" where
  "errors_As (RetError r) = Some r"
| "errors_As (ErrorString s) = None"
| "errors_As (WrapError s e) = errors_As e"

datatype 'a outcome = Panic | Normal 'a

subsection \<open>Data declared outside bot.go\<close>

type_synonym User = string
type_synonym SyncKey = string
type_synonym Message = string
type_synonym CookieJar = string
type_synonym Jar = string

record BaseRequest =
  Uin :: int
  Sid :: string
  Skey :: string
  DeviceID :: string

record LoginInfo =
  WxUin :: int
  WxSid :: string
  SKey :: string

record WebInitResponse =
  User :: User
  SyncKey :: SyncKey

record WebWxSyncResponse =
  SyncKey :: SyncKey
  AddMsgList :: "Message list"

record SyncCheckResponse =
  RetCode :: string
  Selector :: string

record HotReloadStorageItem =
  BaseRequest :: "BaseRequest option"
  Jar :: Jar
  LoginInfo :: "LoginInfo option"
  WechatDomain :: string
  UUID :: string

record Client =
  Jar :: CookieJar
  Domain :: string

record Storage =
  LoginInfo :: "LoginInfo option"
  Request :: "BaseRequest option"
  Response :: "WebInitResponse option"

text \<open>
  The collaborators. A transport call is a method of \<^verbatim>\<open>b.Caller\<close>, which holds the
  client: its first argument is the number of transport calls made before it, its
  second the client (cookie jar and domain) at the time of the call.
\<close>

record Env =
  Caller_GetLoginInfo :: "nat \<Rightarrow> Client \<Rightarrow> string \<Rightarrow> error + LoginInfo"
  Caller_Logout :: "nat \<Rightarrow> Client \<Rightarrow> LoginInfo option \<Rightarrow> error option"
  Caller_WebInit :: "nat \<Rightarrow> Client \<Rightarrow> BaseRequest option \<Rightarrow> error + WebInitResponse"
  Caller_WebWxStatusNotify ::
    "nat \<Rightarrow> Client \<Rightarrow> BaseRequest option \<Rightarrow> WebInitResponse \<Rightarrow> LoginInfo option
      \<Rightarrow> error option"
  Caller_SyncCheck ::
    "nat \<Rightarrow> Client \<Rightarrow> BaseRequest option \<Rightarrow> LoginInfo option \<Rightarrow> WebInitResponse option
      \<Rightarrow> error + SyncCheckResponse"
  Caller_WebWxSync ::
    "nat \<Rightarrow> Client \<Rightarrow> BaseRequest option \<Rightarrow> WebInitResponse option \<Rightarrow> LoginInfo option
      \<Rightarrow> error + WebWxSyncResponse"
  Success :: "SyncCheckResponse \<Rightarrow> bool"
  NorMal :: "SyncCheckResponse \<Rightarrow> bool"
  Err :: "SyncCheckResponse \<Rightarrow> error option"
  failedLoginCheck :: Ret
  cookieInvalid :: Ret
  failedLoginWarn :: Ret
  GetRandomDeviceId :: "nat \<Rightarrow> string"
  formatEmoji :: "User \<Rightarrow> User"

subsection \<open>The bot\<close>

datatype event =
    Call_GetLoginInfo string
  | Call_Logout "LoginInfo option"
  | Call_WebInit "BaseRequest option"
  | Call_WebWxStatusNotify
  | Call_SyncCheck "BaseRequest option" "LoginInfo option" "WebInitResponse option"
  | Call_WebWxSync "BaseRequest option" "WebInitResponse option" "LoginInfo option"
  | Ran_SyncCheckCallback SyncCheckResponse
  | Ran_MessageHandler Message "SyncKey option"
  | Ran_LogoutCallBack
  | Stored_SyncKey SyncKey
  | Loop_Started

text \<open>
  \<^verbatim>\<open>MessageErrorHandler\<close> is \<^verbatim>\<open>nil\<close>, the closure of \<^verbatim>\<open>defaultSyncCheckErrHandler\<close>,
  or a function of the caller's.
\<close>

datatype ErrHandler = DefaultHandler | CustomHandler "error \<Rightarrow> bool"

text \<open>
  The fields of \<^verbatim>\<open>Bot\<close> that the methods above read or write. A hook that takes no
  part in a decision is a flag: whether it is set. \<open>context_done\<close> says whether
  \<^verbatim>\<open>b.context.Done()\<close> is closed. \<open>hotReloadStorage\<close> holds the bytes of the stream.
\<close>

record Bot =
  LogoutCallBack :: bool
  SyncCheckCallback :: bool
  MessageHandler :: bool
  MessageErrorHandler :: "ErrHandler option"
  once :: bool
  err :: "error option"
  context_done :: bool
  Client :: Client
  self :: "User option"
  Storage :: Storage
  hotReloadStorage :: "string option"
  uuid :: string
  deviceId :: string
  tick :: nat
  trace :: "event list"

definition emit :: "event \<Rightarrow> Bot \<Rightarrow> Bot" where
  "emit ev b = b\<lparr>trace := trace b @ [ev]\<rparr>"

definition called :: "event \<Rightarrow> Bot \<Rightarrow> Bot" where
  "called ev b = b\<lparr>tick := Suc (tick b), trace := trace b @ [ev]\<rparr>"

text \<open>
  \<^verbatim>\<open>NewBot\<close>. The client that \<^verbatim>\<open>DefaultCaller\<close> builds and whether the context passed
  in is done already are the arguments.
\<close>

definition NewBot :: "bool \<Rightarrow> Client \<Rightarrow> Bot" where
  "NewBot parent_done c =
     \<lparr>LogoutCallBack = False, SyncCheckCallback = False, MessageHandler = False,
      MessageErrorHandler = None, once = False, err = None, context_done = parent_done,
      Client = c, self = None,
      Storage = \<lparr>Storage.LoginInfo = None, Request = None, Response = None\<rparr>,
      hotReloadStorage = None, uuid = [], deviceId = [], tick = 0, trace = []\<rparr>"

definition Alive :: "Bot \<Rightarrow> bool" where
  "Alive b = (if self b = None then False else if context_done b then False else True)"

definition Exit :: "Bot \<Rightarrow> Bot" where
  "Exit b =
     (let b1 = (if LogoutCallBack b then emit Ran_LogoutCallBack b else b)
      in b1\<lparr>self := None, context_done := True\<rparr>)"

definition Logout :: "Env \<Rightarrow> Bot \<Rightarrow> error option \<times> Bot" where
  "Logout E b =
     (if Alive b then
        (let info = Storage.LoginInfo (Storage b);
             b1 = called (Call_Logout info) b
         in case Caller_Logout E (tick b) (Client b) info of
              Some e \<Rightarrow> (Some e, b1)
            | None \<Rightarrow> (None, Exit b1))
      else (Some (ErrorString ''user not login''), b))"

text \<open>
  \<^verbatim>\<open>Block\<close> returns at once when nobody is logged in; otherwise it waits for the
  context, and returns \<^verbatim>\<open>nil\<close> once it is done.
\<close>

datatype blocked = Waiting | Returned "error option"

definition Block :: "Bot \<Rightarrow> blocked" where
  "Block b =
     (if self b = None then Returned (Some (ErrorString ''`Block` must be called after user login''))
      else if context_done b then Returned None
      else Waiting)"

definition fatal :: "Env \<Rightarrow> Ret \<Rightarrow> bool" where
  "fatal E ret = (ret = failedLoginCheck E \<or> ret = cookieInvalid E \<or> ret = failedLoginWarn E)"

definition defaultSyncCheckErrHandler :: "Env \<Rightarrow> error \<Rightarrow> Bot \<Rightarrow> bool \<times> Bot" where
  "defaultSyncCheckErrHandler E e b =
     (case errors_As e of
        Some ret \<Rightarrow> if fatal E ret then (False, snd (Logout E b)) else (True, b)
      | None \<Rightarrow> (True, b))"

subsection \<open>The long-poll loop\<close>

text \<open>
  \<^verbatim>\<open>syncMessage\<close>. The store into \<^verbatim>\<open>b.Storage.Response.SyncKey\<close> goes through the
  pointer \<^verbatim>\<open>b.Storage.Response\<close> and panics when it is \<^verbatim>\<open>nil\<close>.
\<close>

definition syncMessage :: "Env \<Rightarrow> Bot \<Rightarrow> ((error + Message list) \<times> Bot) outcome" where
  "syncMessage E b =
     (let req = Request (Storage b);
          resp0 = Response (Storage b);
          info = Storage.LoginInfo (Storage b);
          b1 = called (Call_WebWxSync req resp0 info) b
      in case Caller_WebWxSync E (tick b) (Client b) req resp0 info of
           Inl e \<Rightarrow> Normal (Inl e, b1)
         | Inr resp \<Rightarrow>
             (case Response (Storage b1) of
                None \<Rightarrow> Panic
              | Some w \<Rightarrow>
                  Normal (Inr (AddMsgList resp),
                    emit (Stored_SyncKey (WebWxSyncResponse.SyncKey resp))
                      (b1\<lparr>Storage := (Storage b1)\<lparr>Response :=
                         Some (w\<lparr>WebInitResponse.SyncKey := WebWxSyncResponse.SyncKey resp\<rparr>)\<rparr>\<rparr>))))"

text \<open>The sync cursor of the bot: \<^verbatim>\<open>b.Storage.Response.SyncKey\<close>, when there is a response.\<close>

definition cursor :: "Bot \<Rightarrow> SyncKey option" where
  "cursor b = map_option WebInitResponse.SyncKey (Response (Storage b))"

text \<open>The \<^verbatim>\<open>for _, message := range messages\<close> of \<^verbatim>\<open>syncCheck\<close>.\<close>

fun dispatch :: "Bot \<Rightarrow> Message list \<Rightarrow> Bot" where
  "dispatch b [] = b"
| "dispatch b (message # messages) =
     dispatch (emit (Ran_MessageHandler message (cursor b)) b) messages"

text \<open>One pass through the body of the \<^verbatim>\<open>for b.Alive()\<close> of \<^verbatim>\<open>syncCheck\<close>.\<close>

datatype step = Continue Bot | Return "error option" Bot | Panicked

definition syncCheck_iter :: "Env \<Rightarrow> Bot \<Rightarrow> step" where
  "syncCheck_iter E b =
     (let req = Request (Storage b);
          info = Storage.LoginInfo (Storage b);
          resp0 = Response (Storage b);
          b1 = called (Call_SyncCheck req info resp0) b
      in case Caller_SyncCheck E (tick b) (Client b) req info resp0 of
           Inl e \<Rightarrow> Return (Some e) b1
         | Inr resp \<Rightarrow>
             (let b2 = (if SyncCheckCallback b1 then emit (Ran_SyncCheckCallback resp) b1 else b1)
              in if \<not> Success E resp then Return (Err E resp) b2
                 else if \<not> NorMal E resp then
                   (case syncMessage E b2 of
                      Panic \<Rightarrow> Panicked
                    | Normal (Inl e, b3) \<Rightarrow> Return (Some e) b3
                    | Normal (Inr messages, b3) \<Rightarrow>
                        if \<not> MessageHandler b3 then Continue b3
                        else Continue (dispatch b3 messages))
                 else Continue b2))"

text \<open>
  \<^verbatim>\<open>syncCheck\<close>. The variable \<^verbatim>\<open>err\<close> that the last line returns is \<^verbatim>\<open>nil\<close> whenever
  the loop condition fails: every other value has returned from inside the loop.
\<close>

fun syncCheck :: "nat \<Rightarrow> Env \<Rightarrow> Bot \<Rightarrow> (error option \<times> Bot) outcome option" where
  "syncCheck 0 E b = None"
| "syncCheck (Suc n) E b =
     (if Alive b then
        (case syncCheck_iter E b of
           Continue b' \<Rightarrow> syncCheck n E b'
         | Return e b' \<Rightarrow> Some (Normal (e, b'))
         | Panicked \<Rightarrow> Some Panic)
      else Some (Normal (None, b)))"

text \<open>
  The effects that the description of the loop expects, to compare \<^verbatim>\<open>syncCheck\<close> with.
  \<open>polled p b\<close> is the bot after a long-poll that answered \<open>p\<close>: the call is counted and
  logged, and the heartbeat hook has run if there is one. \<open>fetched resp b\<close> is the bot
  after a fetch that answered \<open>resp\<close>: the call is counted and logged, the cursor is the
  one of \<open>resp\<close>, and then the handler, if there is one, has run on every message of
  \<open>resp\<close> in order, seeing the new cursor.
\<close>

definition polled :: "SyncCheckResponse \<Rightarrow> Bot \<Rightarrow> Bot" where
  "polled p b =
     b\<lparr>tick := Suc (tick b),
       trace := trace b
         @ Call_SyncCheck (Request (Storage b)) (Storage.LoginInfo (Storage b))
             (Response (Storage b))
         # (if SyncCheckCallback b then [Ran_SyncCheckCallback p] else [])\<rparr>"

definition fetched :: "WebWxSyncResponse \<Rightarrow> Bot \<Rightarrow> Bot" where
  "fetched resp b =
     b\<lparr>tick := Suc (tick b),
       Storage := (Storage b)\<lparr>Response :=
         map_option (\<lambda>w. w\<lparr>WebInitResponse.SyncKey := WebWxSyncResponse.SyncKey resp\<rparr>)
           (Response (Storage b))\<rparr>,
       trace := trace b
         @ [Call_WebWxSync (Request (Storage b)) (Response (Storage b))
              (Storage.LoginInfo (Storage b)),
            Stored_SyncKey (WebWxSyncResponse.SyncKey resp)]
         @ (if MessageHandler b
            then map (\<lambda>m. Ran_MessageHandler m (Some (WebWxSyncResponse.SyncKey resp)))
                   (AddMsgList resp)
            else [])\<rparr>"

text \<open>The call \<^verbatim>\<open>b.MessageErrorHandler(err)\<close>; calling a \<^verbatim>\<open>nil\<close> function panics.\<close>

definition call_MessageErrorHandler :: "Env \<Rightarrow> error \<Rightarrow> Bot \<Rightarrow> (bool \<times> Bot) outcome" where
  "call_MessageErrorHandler E e b =
     (case MessageErrorHandler b of
        None \<Rightarrow> Panic
      | Some DefaultHandler \<Rightarrow> Normal (defaultSyncCheckErrHandler E e b)
      | Some (CustomHandler f) \<Rightarrow> Normal (f e, b))"

text \<open>The \<^verbatim>\<open>for\<close> of the function that \<^verbatim>\<open>WebInit\<close> hands to \<^verbatim>\<open>b.once.Do\<close>.\<close>

fun sync_loop :: "nat \<Rightarrow> Env \<Rightarrow> Bot \<Rightarrow> Bot outcome option" where
  "sync_loop 0 E b = None"
| "sync_loop (Suc n) E b =
     (case syncCheck n E b of
        None \<Rightarrow> None
      | Some Panic \<Rightarrow> Some Panic
      | Some (Normal (None, b1)) \<Rightarrow> sync_loop n E b1
      | Some (Normal (Some e, b1)) \<Rightarrow>
          (case call_MessageErrorHandler E e b1 of
             Panic \<Rightarrow> Some Panic
           | Normal (goon, b2) \<Rightarrow>
               if \<not> goon then Some (Normal (b2\<lparr>err := Some e\<rparr>))
               else sync_loop n E b2))"

text \<open>The whole function handed to \<^verbatim>\<open>b.once.Do\<close>: the background task.\<close>

definition background_task :: "nat \<Rightarrow> Env \<Rightarrow> Bot \<Rightarrow> Bot outcome option" where
  "background_task n E b =
     sync_loop n E
       (if MessageErrorHandler b = None then b\<lparr>MessageErrorHandler := Some DefaultHandler\<rparr>
        else b)"

subsection \<open>Initialisation\<close>

text \<open>
  \<^verbatim>\<open>WebInit\<close>. \<^verbatim>\<open>b.self.User\<close> points into the response that \<^verbatim>\<open>b.Storage.Response\<close>
  holds, so \<^verbatim>\<open>formatEmoji\<close> changes both. \<^verbatim>\<open>go b.once.Do(f)\<close> runs \<^verbatim>\<open>f\<close> in a new
  goroutine unless \<^verbatim>\<open>b.once\<close> has been used: \<open>Loop_Started\<close> records that the task
  starts, and \<open>background_task\<close> is what it does from there, beside the caller.
\<close>

definition WebInit :: "Env \<Rightarrow> Bot \<Rightarrow> error option \<times> Bot" where
  "WebInit E b =
     (let req = Request (Storage b);
          info = Storage.LoginInfo (Storage b);
          b1 = called (Call_WebInit req) b
      in case Caller_WebInit E (tick b) (Client b) req of
           Inl e \<Rightarrow> (Some e, b1)
         | Inr resp0 \<Rightarrow>
             (let resp = resp0\<lparr>User := formatEmoji E (User resp0)\<rparr>;
                  b2 = b1\<lparr>self := Some (User resp),
                          Storage := (Storage b1)\<lparr>Response := Some resp\<rparr>\<rparr>;
                  b3 = called Call_WebWxStatusNotify b2
              in case Caller_WebWxStatusNotify E (tick b2) (Client b2) req resp info of
                   Some e \<Rightarrow> (Some e, b3)
                 | None \<Rightarrow>
                     (None, if once b3 then b3 else emit Loop_Started (b3\<lparr>once := True\<rparr>))))"

subsection \<open>The snapshot\<close>

text \<open>
  Modelled from the spec: the cookie store and its two conversions, \<^verbatim>\<open>GetCookieJar\<close> of
  the client and \<^verbatim>\<open>AsCookieJar\<close> of the snapshot's jar, are declared outside bot.go. The
  spec calls the cookie store contents opaque and puts them, as they are, into the
  snapshot: both conversions keep the contents.
\<close>

definition GetCookieJar :: "Client \<Rightarrow> Jar" where
  "GetCookieJar c = Client.Jar c"

definition AsCookieJar :: "Jar \<Rightarrow> CookieJar" where
  "AsCookieJar j = j"

text \<open>
  Modelled from the spec: the serialiser behind \<^verbatim>\<open>json.NewEncoder(writer).Encode(item)\<close>
  and \<^verbatim>\<open>json.NewDecoder(storage).Decode(&item)\<close>, and the declaration of
  \<^verbatim>\<open>HotReloadStorageItem\<close> with its field names, are outside bot.go. The spec asks for a
  self-describing structured text, a single JSON object with stable field names for
  the credentials block, the cookie store contents, the session metadata block, the
  domain and the login identifier. \<open>Encode\<close> writes that object and a newline: a string
  between double quotes, with a backslash before every double quote and backslash, an
  integer in decimal, a \<^verbatim>\<open>nil\<close> pointer as \<^verbatim>\<open>null\<close>. \<open>Decode\<close> reads the first object of
  a text in this form, and fails on any other text; on an empty text it fails with
  \<^verbatim>\<open>EOF\<close>.
\<close>

definition quote :: char where
  "quote = CHR 0x22"

definition backslash :: char where
  "backslash = CHR 0x5C"

fun escape :: "string \<Rightarrow> string" where
  "escape [] = []"
| "escape (c # cs) =
     (if c = quote \<or> c = backslash then backslash # c # escape cs else c # escape cs)"

definition encode_string :: "string \<Rightarrow> string" where
  "encode_string s = quote # escape s @ [quote]"

fun unescape :: "string \<Rightarrow> (string \<times> string) option" where
  "unescape [] = None"
| "unescape (c # cs) =
     (if c = quote then Some ([], cs)
      else if c = backslash then
        (case cs of
           [] \<Rightarrow> None
         | d # ds \<Rightarrow> map_option (\<lambda>(s, rest). (d # s, rest)) (unescape ds))
      else map_option (\<lambda>(s, rest). (c # s, rest)) (unescape cs))"

definition decode_string :: "string \<Rightarrow> (string \<times> string) option" where
  "decode_string s =
     (case s of [] \<Rightarrow> None | c # cs \<Rightarrow> if c = quote then unescape cs else None)"

definition is_digit :: "char \<Rightarrow> bool" where
  "is_digit c = (48 \<le> (of_char c :: nat) \<and> (of_char c :: nat) \<le> 57)"

definition digit :: "nat \<Rightarrow> char" where
  "digit d = char_of (48 + d)"

function digits :: "nat \<Rightarrow> string" where
  "digits n = (if n < 10 then [digit n] else digits (n div 10) @ [digit (n mod 10)])"
  by pat_completeness auto
termination
  by (relation "measure id") auto

declare digits.simps [simp del]

definition number :: "string \<Rightarrow> nat" where
  "number ds = foldl (\<lambda>a c. 10 * a + ((of_char c :: nat) - 48)) 0 ds"

definition decode_nat :: "string \<Rightarrow> (nat \<times> string) option" where
  "decode_nat s =
     (if takeWhile is_digit s = [] then None
      else Some (number (takeWhile is_digit s), dropWhile is_digit s))"

definition encode_int :: "int \<Rightarrow> string" where
  "encode_int i = (if i < 0 then CHR ''-'' # digits (nat (- i)) else digits (nat i))"

definition decode_int :: "string \<Rightarrow> (int \<times> string) option" where
  "decode_int s =
     (case s of
        [] \<Rightarrow> None
      | c # cs \<Rightarrow>
          if c = CHR ''-'' then map_option (\<lambda>(n, rest). (- int n, rest)) (decode_nat cs)
          else map_option (\<lambda>(n, rest). (int n, rest)) (decode_nat s))"

text \<open>\<open>expect p s\<close> takes the text \<open>p\<close> off the front of \<open>s\<close>.\<close>

fun expect :: "string \<Rightarrow> string \<Rightarrow> string option" where
  "expect [] s = Some s"
| "expect (c # p) [] = None"
| "expect (c # p) (d # s) = (if c = d then expect p s else None)"

definition key :: "string \<Rightarrow> string" where
  "key k = quote # k @ [quote, CHR '':'']"

definition encode_BaseRequest :: "BaseRequest \<Rightarrow> string" where
  "encode_BaseRequest r =
     CHR ''{'' # key ''Uin'' @ encode_int (Uin r)
       @ CHR '','' # key ''Sid'' @ encode_string (Sid r)
       @ CHR '','' # key ''Skey'' @ encode_string (Skey r)
       @ CHR '','' # key ''DeviceID'' @ encode_string (DeviceID r)
       @ [CHR ''}'']"

definition decode_BaseRequest :: "string \<Rightarrow> (BaseRequest \<times> string) option" where
  "decode_BaseRequest s0 =
     Option.bind (expect (CHR ''{'' # key ''Uin'') s0) (\<lambda>s1.
     Option.bind (decode_int s1) (\<lambda>(uin, s2).
     Option.bind (expect (CHR '','' # key ''Sid'') s2) (\<lambda>s3.
     Option.bind (decode_string s3) (\<lambda>(sid, s4).
     Option.bind (expect (CHR '','' # key ''Skey'') s4) (\<lambda>s5.
     Option.bind (decode_string s5) (\<lambda>(skey, s6).
     Option.bind (expect (CHR '','' # key ''DeviceID'') s6) (\<lambda>s7.
     Option.bind (decode_string s7) (\<lambda>(device, s8).
     Option.bind (expect [CHR ''}''] s8) (\<lambda>s9.
     Some (\<lparr>Uin = uin, Sid = sid, Skey = skey, DeviceID = device\<rparr>, s9))))))))))"

definition encode_LoginInfo :: "LoginInfo \<Rightarrow> string" where
  "encode_LoginInfo r =
     CHR ''{'' # key ''WxUin'' @ encode_int (WxUin r)
       @ CHR '','' # key ''WxSid'' @ encode_string (WxSid r)
       @ CHR '','' # key ''SKey'' @ encode_string (SKey r)
       @ [CHR ''}'']"

definition decode_LoginInfo :: "string \<Rightarrow> (LoginInfo \<times> string) option" where
  "decode_LoginInfo s0 =
     Option.bind (expect (CHR ''{'' # key ''WxUin'') s0) (\<lambda>s1.
     Option.bind (decode_int s1) (\<lambda>(uin, s2).
     Option.bind (expect (CHR '','' # key ''WxSid'') s2) (\<lambda>s3.
     Option.bind (decode_string s3) (\<lambda>(sid, s4).
     Option.bind (expect (CHR '','' # key ''SKey'') s4) (\<lambda>s5.
     Option.bind (decode_string s5) (\<lambda>(skey, s6).
     Option.bind (expect [CHR ''}''] s6) (\<lambda>s7.
     Some (\<lparr>WxUin = uin, WxSid = sid, SKey = skey\<rparr>, s7))))))))"

definition encode_pointer :: "('a \<Rightarrow> string) \<Rightarrow> 'a option \<Rightarrow> string" where
  "encode_pointer enc p = (case p of None \<Rightarrow> ''null'' | Some x \<Rightarrow> enc x)"

definition decode_pointer ::
  "(string \<Rightarrow> ('a \<times> string) option) \<Rightarrow> string \<Rightarrow> ('a option \<times> string) option" where
  "decode_pointer dec s =
     (case expect ''null'' s of
        Some rest \<Rightarrow> Some (None, rest)
      | None \<Rightarrow> map_option (\<lambda>(x, rest). (Some x, rest)) (dec s))"

definition Encode :: "HotReloadStorageItem \<Rightarrow> string" where
  "Encode item =
     CHR ''{'' # key ''BaseRequest'' @ encode_pointer encode_BaseRequest (BaseRequest item)
       @ CHR '','' # key ''Jar'' @ encode_string (HotReloadStorageItem.Jar item)
       @ CHR '','' # key ''LoginInfo''
       @ encode_pointer encode_LoginInfo (HotReloadStorageItem.LoginInfo item)
       @ CHR '','' # key ''WechatDomain'' @ encode_string (WechatDomain item)
       @ CHR '','' # key ''UUID'' @ encode_string (UUID item)
       @ [CHR ''}'', CHR 0x0A]"

definition decode_item :: "string \<Rightarrow> (HotReloadStorageItem \<times> string) option" where
  "decode_item s0 =
     Option.bind (expect (CHR ''{'' # key ''BaseRequest'') s0) (\<lambda>s1.
     Option.bind (decode_pointer decode_BaseRequest s1) (\<lambda>(req, s2).
     Option.bind (expect (CHR '','' # key ''Jar'') s2) (\<lambda>s3.
     Option.bind (decode_string s3) (\<lambda>(jar, s4).
     Option.bind (expect (CHR '','' # key ''LoginInfo'') s4) (\<lambda>s5.
     Option.bind (decode_pointer decode_LoginInfo s5) (\<lambda>(info, s6).
     Option.bind (expect (CHR '','' # key ''WechatDomain'') s6) (\<lambda>s7.
     Option.bind (decode_string s7) (\<lambda>(domain, s8).
     Option.bind (expect (CHR '','' # key ''UUID'') s8) (\<lambda>s9.
     Option.bind (decode_string s9) (\<lambda>(uuid, s10).
     Option.bind (expect [CHR ''}''] s10) (\<lambda>s11.
     Some (\<lparr>BaseRequest = req, HotReloadStorageItem.Jar = jar,
            HotReloadStorageItem.LoginInfo = info, WechatDomain = domain, UUID = uuid\<rparr>,
           s11))))))))))))"

definition Decode :: "string \<Rightarrow> error + HotReloadStorageItem" where
  "Decode text =
     (if text = [] then Inl (ErrorString ''EOF'')
      else case decode_item text of
             None \<Rightarrow> Inl (ErrorString ''json: cannot unmarshal into HotReloadStorageItem'')
           | Some (item, rest) \<Rightarrow> Inr item)"

text \<open>The \<^verbatim>\<open>item\<close> that \<^verbatim>\<open>DumpTo\<close> builds.\<close>

definition DumpTo_item :: "Bot \<Rightarrow> HotReloadStorageItem" where
  "DumpTo_item b =
     \<lparr>BaseRequest = Request (Storage b),
      HotReloadStorageItem.Jar = GetCookieJar (Client b),
      HotReloadStorageItem.LoginInfo = Storage.LoginInfo (Storage b),
      WechatDomain = Domain (Client b),
      UUID = uuid b\<rparr>"

text \<open>
  \<^verbatim>\<open>DumpTo\<close>. The writer is a stream held in memory, given by the text that is still to
  be read from it: the encoder appends to it, and writing does not fail.
\<close>

definition DumpTo :: "Bot \<Rightarrow> string \<Rightarrow> error option \<times> string" where
  "DumpTo b writer = (None, writer @ Encode (DumpTo_item b))"

definition DumpHotReloadStorage :: "Bot \<Rightarrow> error option \<times> Bot" where
  "DumpHotReloadStorage b =
     (case hotReloadStorage b of
        None \<Rightarrow> (Some (ErrorString ''HotReloadStorage can not be nil''), b)
      | Some writer \<Rightarrow>
          (case DumpTo b writer of
             (r, writer') \<Rightarrow> (r, b\<lparr>hotReloadStorage := Some writer'\<rparr>)))"

text \<open>
  \<^verbatim>\<open>reload\<close>. The decoder is made for this one call and reads the stream into its
  buffer, up to the end for a stream of the size of a snapshot: whether decoding
  succeeds or not, nothing is left to read afterwards.
\<close>

definition reload :: "Bot \<Rightarrow> error option \<times> Bot" where
  "reload b =
     (case hotReloadStorage b of
        None \<Rightarrow> (Some (ErrorString ''hotReloadStorage is nil''), b)
      | Some text \<Rightarrow>
          (let b1 = b\<lparr>hotReloadStorage := Some []\<rparr>
           in case Decode text of
                Inl e \<Rightarrow> (Some e, b1)
              | Inr item \<Rightarrow>
                  (None,
                   b1\<lparr>Client := (Client b1)\<lparr>Client.Jar :=
                                              AsCookieJar (HotReloadStorageItem.Jar item),
                                            Domain := WechatDomain item\<rparr>,
                      Storage := (Storage b1)\<lparr>Storage.LoginInfo :=
                                                HotReloadStorageItem.LoginInfo item,
                                              Request := BaseRequest item\<rparr>,
                      uuid := UUID item\<rparr>)))"

subsection \<open>Login\<close>

definition HandleLogin :: "Env \<Rightarrow> string \<Rightarrow> Bot \<Rightarrow> error option \<times> Bot" where
  "HandleLogin E data b =
     (let b1 = called (Call_GetLoginInfo data) b
      in case Caller_GetLoginInfo E (tick b) (Client b) data of
           Inl e \<Rightarrow> (Some e, b1)
         | Inr info \<Rightarrow>
             (let b2 = b1\<lparr>Storage := (Storage b1)\<lparr>Storage.LoginInfo := Some info\<rparr>\<rparr>;
                  b3 = (if deviceId b2 = [] then b2\<lparr>deviceId := GetRandomDeviceId E (tick b2)\<rparr>
                        else b2);
                  request = \<lparr>Uin = WxUin info, Sid = WxSid info, Skey = SKey info,
                             DeviceID = deviceId b3\<rparr>;
                  b4 = b3\<lparr>Storage := (Storage b3)\<lparr>Request := Some request\<rparr>\<rparr>
              in if hotReloadStorage b4 \<noteq> None then
                   (case DumpHotReloadStorage b4 of
                      (Some e, b5) \<Rightarrow> (Some e, b5)
                    | (None, b5) \<Rightarrow> WebInit E b5)
                 else WebInit E b4))"

subsection \<open>Sequences of calls\<close>

text \<open>
  What can happen to one bot, in any order: the caller's thread logs in (a login
  strategy sets the storage, reloads, completes the login), dumps, logs out, exits, the
  context passed to \<^verbatim>\<open>NewBot\<close> is cancelled, and the background task polls once or hands
  an error to the handler.
\<close>

datatype op =
    Set_hotReloadStorage "string option"
  | Do_HandleLogin string
  | Do_WebInit
  | Do_reload
  | Do_DumpHotReloadStorage
  | Do_Logout
  | Do_Exit
  | Do_cancel
  | Do_syncCheck_iter
  | Do_MessageErrorHandler error

fun apply_op :: "Env \<Rightarrow> op \<Rightarrow> Bot \<Rightarrow> Bot" where
  "apply_op E (Set_hotReloadStorage s) b = b\<lparr>hotReloadStorage := s\<rparr>"
| "apply_op E (Do_HandleLogin data) b = snd (HandleLogin E data b)"
| "apply_op E Do_WebInit b = snd (WebInit E b)"
| "apply_op E Do_reload b = snd (reload b)"
| "apply_op E Do_DumpHotReloadStorage b = snd (DumpHotReloadStorage b)"
| "apply_op E Do_Logout b = snd (Logout E b)"
| "apply_op E Do_Exit b = Exit b"
| "apply_op E Do_cancel b = b\<lparr>context_done := True\<rparr>"
| "apply_op E Do_syncCheck_iter b =
     (if Alive b then
        (case syncCheck_iter E b of
           Continue b' \<Rightarrow> b'
         | Return e b' \<Rightarrow> b'
         | Panicked \<Rightarrow> b)
      else b)"
| "apply_op E (Do_MessageErrorHandler e) b =
     (case call_MessageErrorHandler E e b of
        Panic \<Rightarrow> b
      | Normal (goon, b') \<Rightarrow> if \<not> goon then b'\<lparr>err := Some e\<rparr> else b')"

fun run :: "Env \<Rightarrow> op list \<Rightarrow> Bot \<Rightarrow> Bot" where
  "run E [] b = b"
| "run E (x # xs) b = run E xs (apply_op E x b)"

definition loops_started :: "Bot \<Rightarrow> nat" where
  "loops_started b = count_list (trace b) Loop_Started"

subsection \<open>A concrete session\<close>

text \<open>
  One remote service to evaluate the definitions on. It knows one client with one set
  of credentials, and refuses the initialisation and the long-poll to any other. Its
  long-poll answers \<open>poll\<close>, its logout call answers \<open>logout\<close>; the status text \<open>0\<close> is success,
  the selector \<open>0\<close> is normal, and the three fatal codes are 1100, 1101 and 1102.
\<close>

definition ex_info :: LoginInfo where
  "ex_info = \<lparr>WxUin = 42, WxSid = ''sid'', SKey = ''skey''\<rparr>"

definition ex_request :: BaseRequest where
  "ex_request = \<lparr>Uin = 42, Sid = ''sid'', Skey = ''skey'', DeviceID = ''e123''\<rparr>"

definition ex_client :: Client where
  "ex_client = \<lparr>Client.Jar = ''cookies'', Domain = ''wx.qq.com''\<rparr>"

definition ex_init :: WebInitResponse where
  "ex_init = \<lparr>User = ''alice'', WebInitResponse.SyncKey = ''k0''\<rparr>"

definition ex_Err :: "SyncCheckResponse \<Rightarrow> error option" where
  "ex_Err r =
     (if RetCode r = ''0'' then None
      else if RetCode r = ''1100'' then Some (RetError 1100)
      else if RetCode r = ''1101'' then Some (RetError 1101)
      else if RetCode r = ''1102'' then Some (RetError 1102)
      else Some (ErrorString ''sync check unknown error''))"

definition ex_sync :: WebWxSyncResponse where
  "ex_sync = \<lparr>WebWxSyncResponse.SyncKey = ''k1'', AddMsgList = [''m1'', ''m2'']\<rparr>"

definition ex_env :: "SyncCheckResponse \<Rightarrow> error option \<Rightarrow> Env" where
  "ex_env poll logout =
     \<lparr>Caller_GetLoginInfo = (\<lambda>t c data. Inr ex_info),
      Caller_Logout = (\<lambda>t c info. logout),
      Caller_WebInit = (\<lambda>t c req.
        if c = ex_client \<and> req = Some ex_request then Inr ex_init
        else Inl (ErrorString ''unauthorized'')),
      Caller_WebWxStatusNotify = (\<lambda>t c req resp info. None),
      Caller_SyncCheck = (\<lambda>t c req info resp.
        if c = ex_client \<and> req = Some ex_request \<and> info = Some ex_info then Inr poll
        else Inl (ErrorString ''unauthorized'')),
      Caller_WebWxSync = (\<lambda>t c req resp info. Inr ex_sync),
      Success = (\<lambda>r. RetCode r = ''0''),
      NorMal = (\<lambda>r. RetCode r = ''0'' \<and> Selector r = ''0''),
      Err = ex_Err,
      failedLoginCheck = 1101,
      cookieInvalid = 1102,
      failedLoginWarn = 1100,
      GetRandomDeviceId = (\<lambda>t. ''e123''),
      formatEmoji = (\<lambda>u. u)\<rparr>"

definition poll_normal :: SyncCheckResponse where
  "poll_normal = \<lparr>RetCode = ''0'', Selector = ''0''\<rparr>"

definition poll_message :: SyncCheckResponse where
  "poll_message = \<lparr>RetCode = ''0'', Selector = ''2''\<rparr>"

definition poll_logout :: SyncCheckResponse where
  "poll_logout = \<lparr>RetCode = ''1100'', Selector = ''0''\<rparr>"

text \<open>A new bot in another process, with another client and no UUID yet.\<close>

definition ex_resumed :: Bot where
  "ex_resumed = NewBot False \<lparr>Client.Jar = [], Domain = ''wx2.qq.com''\<rparr>"

definition ex_new :: Bot where
  "ex_new = (NewBot False ex_client)\<lparr>uuid := ''abc123''\<rparr>"

text \<open>The bot after a fresh login: the state that \<^verbatim>\<open>HandleLogin\<close> leaves.\<close>

definition ex_online :: Bot where
  "ex_online =
     \<lparr>LogoutCallBack = False, SyncCheckCallback = False, MessageHandler = False,
      MessageErrorHandler = None, once = True, err = None, context_done = False,
      Client = ex_client, self = Some ''alice'',
      Storage = \<lparr>Storage.LoginInfo = Some ex_info, Request = Some ex_request,
                 Response = Some ex_init\<rparr>,
      hotReloadStorage = None, uuid = ''abc123'', deviceId = ''e123'', tick = 3,
      trace = [Call_GetLoginInfo ''ticket'', Call_WebInit (Some ex_request),
               Call_WebWxStatusNotify, Loop_Started]\<rparr>"

text \<open>The new bot of the other process, its storage holding what the logged-in bot dumps.\<close>

definition ex_resuming :: Bot where
  "ex_resuming = ex_resumed\<lparr>hotReloadStorage := Some (snd (DumpTo ex_online []))\<rparr>"

section \<open>Properties\<close>

subsection \<open>Basic facts\<close>

lemma Alive_Exit: "\<not> Alive (Exit b)"
  by (simp add: Alive_def Exit_def Let_def)

lemma Alive_cancel: "\<not> Alive (b\<lparr>context_done := True\<rparr>)"
  by (simp add: Alive_def)

lemma Alive_NewBot: "\<not> Alive (NewBot d c)"
  by (simp add: Alive_def NewBot_def)

lemma ex_online_reached:
  "HandleLogin (ex_env poll logout) ''ticket'' ex_new = (None, ex_online)"
  by (simp add: HandleLogin_def WebInit_def called_def emit_def Let_def ex_env_def ex_new_def
      NewBot_def ex_online_def ex_request_def ex_info_def ex_init_def)

lemma Alive_ex_online: "Alive ex_online"
  by (simp add: Alive_def ex_online_def)

lemma Alive_called: "Alive (called ev b) = Alive b"
  by (simp add: Alive_def called_def)

lemma Block_called: "Block (called ev b) = Block b"
  by (simp add: Block_def called_def)

lemma self_Exit: "self (Exit b) = None"
  by (simp add: Exit_def Let_def)

lemma self_ex_online: "self ex_online = Some ''alice''"
  by (simp add: ex_online_def)

lemma ex_online_info: "Storage.LoginInfo (Storage ex_online) = Some ex_info"
  by (simp add: ex_online_def)

lemma Logout_ex_online:
  "Logout (ex_env poll logout) ex_online =
     (case logout of
        Some e \<Rightarrow> (Some e, called (Call_Logout (Some ex_info)) ex_online)
      | None \<Rightarrow> (None, Exit (called (Call_Logout (Some ex_info)) ex_online)))"
  by (simp add: Logout_def Alive_ex_online ex_online_info Let_def ex_env_def)

subsection \<open>The default error handler\<close>

text \<open>
  C6. The decision of the default error handler depends on the error alone, whatever the
  bot and the remote service are: it is \<^verbatim>\<open>false\<close> (stop) exactly when the error carries
  one of the three status codes \<^verbatim>\<open>failedLoginCheck\<close>, \<^verbatim>\<open>cookieInvalid\<close> and
  \<^verbatim>\<open>failedLoginWarn\<close>, and \<^verbatim>\<open>true\<close> (continue) for every other error: a plain error text
  continues, and a status code continues unless it is one of the three.
\<close>

theorem defaultSyncCheckErrHandler_decision:
  "fst (defaultSyncCheckErrHandler E e b)
     = (\<not> (\<exists>ret. errors_As e = Some ret
            \<and> (ret = failedLoginCheck E \<or> ret = cookieInvalid E \<or> ret = failedLoginWarn E)))
   \<and> fst (defaultSyncCheckErrHandler E (ErrorString s) b) = True
   \<and> fst (defaultSyncCheckErrHandler E (RetError r) b)
       = (r \<notin> {failedLoginCheck E, cookieInvalid E, failedLoginWarn E})"
  by (auto simp add: defaultSyncCheckErrHandler_def fatal_def split: option.splits)

subsection \<open>Logout, Exit and Block\<close>

text \<open>
  C9. \<^verbatim>\<open>Logout\<close> on a bot that is not alive returns the error \<^verbatim>\<open>user not login\<close> and
  leaves the bot as it was: no transport call, no change of state. A new bot, a bot
  after \<^verbatim>\<open>Exit\<close> and a bot whose context is cancelled are not alive. Whenever \<^verbatim>\<open>Logout\<close>
  changes anything (the remote call is counted and logged in the bot), the bot was
  alive.
\<close>

theorem Logout_requires_Alive:
  "(\<not> Alive b \<longrightarrow> Logout E b = (Some (ErrorString ''user not login''), b))
   \<and> \<not> Alive (NewBot d c) \<and> \<not> Alive (Exit b) \<and> \<not> Alive (b\<lparr>context_done := True\<rparr>)
   \<and> (snd (Logout E b) \<noteq> b \<longrightarrow> Alive b)"
  by (simp add: Logout_def Alive_Exit Alive_cancel Alive_NewBot)

theorem Logout_requires_Alive_witness:
  "\<not> Alive ex_new
   \<and> Logout (ex_env poll_normal None) ex_new = (Some (ErrorString ''user not login''), ex_new)
   \<and> \<not> Alive (Exit ex_online)
   \<and> Logout (ex_env poll_normal None) (Exit ex_online)
       = (Some (ErrorString ''user not login''), Exit ex_online)
   \<and> snd (Logout (ex_env poll_normal None) ex_online) \<noteq> ex_online \<and> Alive ex_online"
proof -
  have 1: "\<not> Alive ex_new" by (simp add: ex_new_def Alive_def NewBot_def)
  have "self (snd (Logout (ex_env poll_normal None) ex_online)) \<noteq> self ex_online"
    by (simp add: Logout_ex_online self_Exit self_ex_online)
  then have 2: "snd (Logout (ex_env poll_normal None) ex_online) \<noteq> ex_online"
    by auto
  from 1 have 3: "Logout (ex_env poll_normal None) ex_new = (Some (ErrorString ''user not login''), ex_new)"
    using Logout_requires_Alive [of ex_new "ex_env poll_normal None"] by blast
  have 4: "Logout (ex_env poll_normal None) (Exit ex_online)
       = (Some (ErrorString ''user not login''), Exit ex_online)"
    using Logout_requires_Alive [of "Exit ex_online" "ex_env poll_normal None"] Alive_Exit by blast
  have 5: "Alive ex_online"
    using 2 Logout_requires_Alive [of ex_online "ex_env poll_normal None"] by blast
  from 1 2 3 4 5 Alive_Exit show ?thesis by blast
qed

text \<open>
  C10. \<^verbatim>\<open>Exit\<close> sets \<^verbatim>\<open>b.self\<close> to \<^verbatim>\<open>nil\<close>, so \<^verbatim>\<open>Block\<close> called on any bot after \<^verbatim>\<open>Exit\<close>
  returns the error \<^verbatim>\<open>`Block` must be called after user login\<close>: it neither waits nor
  returns \<^verbatim>\<open>nil\<close>.
\<close>

theorem Block_after_Exit:
  "Block (Exit b) = Returned (Some (ErrorString ''`Block` must be called after user login''))"
  by (simp add: Block_def Exit_def Let_def)

subsection \<open>The background task after cancellation\<close>

lemma sync_loop_not_Alive: "\<not> Alive b \<Longrightarrow> sync_loop n E b = None"
proof (induction n)
  case 0
  then show ?case by simp
next
  case (Suc n)
  then show ?case by (cases n) simp_all
qed

lemma background_task_not_Alive: "\<not> Alive b \<Longrightarrow> background_task n E b = None"
proof -
  assume "\<not> Alive b"
  then have "\<not> Alive (if MessageErrorHandler b = None
                  then b\<lparr>MessageErrorHandler := Some DefaultHandler\<rparr> else b)"
    by (auto simp add: Alive_def split: if_splits)
  then show ?thesis
    unfolding background_task_def by (rule sync_loop_not_Alive)
qed

text \<open>
  C3. The claim is that the background task exits once the context is cancelled. On the
  code only \<^verbatim>\<open>syncCheck\<close> does: it returns \<^verbatim>\<open>nil\<close> at once, and the loop around it takes
  a \<^verbatim>\<open>nil\<close> error as the signal to call \<^verbatim>\<open>syncCheck\<close> again. After \<^verbatim>\<open>Exit\<close>, and after
  the context is cancelled from outside, the background task does not return, whatever
  the fuel.
\<close>

theorem background_task_never_returns:
  "background_task n E (Exit b) = None
   \<and> background_task n E (b\<lparr>context_done := True\<rparr>) = None
   \<and> syncCheck (Suc n) E (Exit b) = Some (Normal (None, Exit b))"
  by (simp add: background_task_not_Alive Alive_Exit Alive_cancel)

subsection \<open>One pass of the long-poll loop\<close>

lemma dispatch_eq:
  "dispatch b ms = b\<lparr>trace := trace b @ map (\<lambda>m. Ran_MessageHandler m (cursor b)) ms\<rparr>"
proof (induction ms arbitrary: b)
  case Nil
  then show ?case by simp
next
  case (Cons m ms)
  have "cursor (emit ev b) = cursor b" for ev
    by (simp add: cursor_def emit_def)
  then show ?case
    by (simp add: Cons.IH emit_def)
qed

lemma syncCheck_iter_polled:
  assumes "Caller_SyncCheck E (tick b) (Client b) (Request (Storage b)) (Storage.LoginInfo (Storage b))
             (Response (Storage b)) = Inr p"
  shows "syncCheck_iter E b =
     (if \<not> Success E p then Return (Err E p) (polled p b)
      else if \<not> NorMal E p then
        (case syncMessage E (polled p b) of
           Panic \<Rightarrow> Panicked
         | Normal (Inl e, b3) \<Rightarrow> Return (Some e) b3
         | Normal (Inr messages, b3) \<Rightarrow>
             if \<not> MessageHandler b3 then Continue b3 else Continue (dispatch b3 messages))
      else Continue (polled p b))"
  using assms by (simp add: syncCheck_iter_def Let_def polled_def called_def emit_def)

lemma syncMessage_fetched:
  assumes "Caller_WebWxSync E (tick b) (Client b) (Request (Storage b)) (Response (Storage b))
             (Storage.LoginInfo (Storage b)) = Inr resp"
    and "Response (Storage b) = Some w"
  shows "(case syncMessage E b of
            Panic \<Rightarrow> Panicked
          | Normal (Inl e, b3) \<Rightarrow> Return (Some e) b3
          | Normal (Inr messages, b3) \<Rightarrow>
              if \<not> MessageHandler b3 then Continue b3 else Continue (dispatch b3 messages))
         = Continue (fetched resp b)"
  using assms
  by (simp add: syncMessage_def Let_def called_def emit_def dispatch_eq cursor_def fetched_def)

lemma polled_fields:
  "Storage (polled p b) = Storage b" "tick (polled p b) = Suc (tick b)"
  "MessageHandler (polled p b) = MessageHandler b" "Alive (polled p b) = Alive b"
  "Client (polled p b) = Client b"
  by (simp_all add: polled_def Alive_def)

lemma syncCheck_iter_fetched:
  assumes poll: "Caller_SyncCheck E (tick b) (Client b) (Request (Storage b)) (Storage.LoginInfo (Storage b))
                   (Response (Storage b)) = Inr p"
    and selector: "Success E p" "\<not> NorMal E p"
    and fetch: "Caller_WebWxSync E (Suc (tick b)) (Client b) (Request (Storage b)) (Response (Storage b))
                  (Storage.LoginInfo (Storage b)) = Inr resp"
    and init: "Response (Storage b) = Some w"
  shows "syncCheck_iter E b = Continue (fetched resp (polled p b))"
proof -
  have "(case syncMessage E (polled p b) of
            Panic \<Rightarrow> Panicked
          | Normal (Inl e, b3) \<Rightarrow> Return (Some e) b3
          | Normal (Inr messages, b3) \<Rightarrow>
              if \<not> MessageHandler b3 then Continue b3 else Continue (dispatch b3 messages))
         = Continue (fetched resp (polled p b))"
    using fetch init by (intro syncMessage_fetched) (simp_all add: polled_fields)
  then show ?thesis
    using selector by (simp add: syncCheck_iter_polled [OF poll])
qed

lemma fetched_polled_cursor:
  "Response (Storage b) = Some w \<Longrightarrow>
   Response (Storage (fetched resp (polled p b)))
     = Some (w\<lparr>WebInitResponse.SyncKey := WebWxSyncResponse.SyncKey resp\<rparr>)"
  by (simp add: fetched_def polled_def)

lemma fetched_polled_trace:
  "trace (fetched resp (polled p b)) = trace b
     @ Call_SyncCheck (Request (Storage b)) (Storage.LoginInfo (Storage b)) (Response (Storage b))
     # (if SyncCheckCallback b then [Ran_SyncCheckCallback p] else [])
     @ [Call_WebWxSync (Request (Storage b)) (Response (Storage b)) (Storage.LoginInfo (Storage b)),
        Stored_SyncKey (WebWxSyncResponse.SyncKey resp)]
     @ (if MessageHandler b
        then map (\<lambda>m. Ran_MessageHandler m (Some (WebWxSyncResponse.SyncKey resp)))
               (AddMsgList resp)
        else [])"
  by (simp add: fetched_def polled_def)

lemma ex_online_fields:
  "Request (Storage ex_online) = Some ex_request"
  "Response (Storage ex_online) = Some ex_init"
  "tick ex_online = 3"
  "SyncCheckCallback ex_online = False"
  "MessageHandler ex_online = False"
  "Client ex_online = ex_client"
  by (simp_all add: ex_online_def)

lemma ex_env_fields:
  "Caller_WebInit (ex_env poll logout) t ex_client (Some ex_request) = Inr ex_init"
  "Caller_WebWxStatusNotify (ex_env poll logout) = (\<lambda>t c req resp info. None)"
  "formatEmoji (ex_env poll logout) = (\<lambda>u. u)"
  "Caller_SyncCheck (ex_env poll logout) t ex_client (Some ex_request) (Some ex_info) resp
     = Inr poll"
  "Caller_WebWxSync (ex_env poll logout) = (\<lambda>t c req resp info. Inr ex_sync)"
  "Success (ex_env poll logout) = (\<lambda>r. RetCode r = ''0'')"
  "NorMal (ex_env poll logout) = (\<lambda>r. RetCode r = ''0'' \<and> Selector r = ''0'')"
  "Err (ex_env poll logout) = ex_Err"
  by (simp_all add: ex_env_def)

text \<open>
  C4. When the long-poll asks for a fetch and the fetch returns a batch, one pass of the
  loop leaves \<^verbatim>\<open>b.Storage.Response.SyncKey\<close> at the value returned by that fetch. The
  log of the pass holds one store of the cursor, right after the fetch, and every
  invocation of the handler comes after it and finds the new cursor in the bot.
\<close>

theorem syncCheck_iter_cursor_then_dispatch:
  assumes poll: "Caller_SyncCheck E (tick b) (Client b) (Request (Storage b)) (Storage.LoginInfo (Storage b))
                   (Response (Storage b)) = Inr p"
    and selector: "Success E p" "\<not> NorMal E p"
    and fetch: "Caller_WebWxSync E (Suc (tick b)) (Client b) (Request (Storage b)) (Response (Storage b))
                  (Storage.LoginInfo (Storage b)) = Inr resp"
    and init: "Response (Storage b) = Some w"
  shows "\<exists>b'. syncCheck_iter E b = Continue b'
           \<and> Response (Storage b')
               = Some (w\<lparr>WebInitResponse.SyncKey := WebWxSyncResponse.SyncKey resp\<rparr>)
           \<and> cursor b' = Some (WebWxSyncResponse.SyncKey resp)
           \<and> trace b' = trace b
               @ Call_SyncCheck (Request (Storage b)) (Storage.LoginInfo (Storage b)) (Some w)
               # (if SyncCheckCallback b then [Ran_SyncCheckCallback p] else [])
               @ [Call_WebWxSync (Request (Storage b)) (Some w) (Storage.LoginInfo (Storage b)),
                  Stored_SyncKey (WebWxSyncResponse.SyncKey resp)]
               @ (if MessageHandler b
                  then map (\<lambda>m. Ran_MessageHandler m (Some (WebWxSyncResponse.SyncKey resp)))
                         (AddMsgList resp)
                  else [])"
proof (intro exI conjI)
  show "syncCheck_iter E b = Continue (fetched resp (polled p b))"
    using poll selector fetch init by (rule syncCheck_iter_fetched)
  show "Response (Storage (fetched resp (polled p b)))
          = Some (w\<lparr>WebInitResponse.SyncKey := WebWxSyncResponse.SyncKey resp\<rparr>)"
    using init by (rule fetched_polled_cursor)
  then show "cursor (fetched resp (polled p b)) = Some (WebWxSyncResponse.SyncKey resp)"
    by (simp add: cursor_def)
  show "trace (fetched resp (polled p b)) = trace b
               @ Call_SyncCheck (Request (Storage b)) (Storage.LoginInfo (Storage b)) (Some w)
               # (if SyncCheckCallback b then [Ran_SyncCheckCallback p] else [])
               @ [Call_WebWxSync (Request (Storage b)) (Some w) (Storage.LoginInfo (Storage b)),
                  Stored_SyncKey (WebWxSyncResponse.SyncKey resp)]
               @ (if MessageHandler b
                  then map (\<lambda>m. Ran_MessageHandler m (Some (WebWxSyncResponse.SyncKey resp)))
                         (AddMsgList resp)
                  else [])"
    using init by (simp only: fetched_polled_trace)
qed

theorem syncCheck_iter_cursor_then_dispatch_witness:
  "\<exists>b'. syncCheck_iter (ex_env poll_message None) (ex_online\<lparr>MessageHandler := True\<rparr>)
           = Continue b'
     \<and> cursor b' = Some ''k1''
     \<and> trace b' = trace ex_online
         @ [Call_SyncCheck (Some ex_request) (Some ex_info) (Some ex_init),
            Call_WebWxSync (Some ex_request) (Some ex_init) (Some ex_info),
            Stored_SyncKey ''k1'',
            Ran_MessageHandler ''m1'' (Some ''k1''),
            Ran_MessageHandler ''m2'' (Some ''k1'')]"
proof -
  let ?E = "ex_env poll_message None"
  let ?b = "ex_online\<lparr>MessageHandler := True\<rparr>"
  have poll: "Caller_SyncCheck ?E (tick ?b) (Client ?b) (Request (Storage ?b)) (Storage.LoginInfo (Storage ?b))
                (Response (Storage ?b)) = Inr poll_message"
    by (simp add: ex_env_fields ex_online_fields ex_online_info)
  have sel: "Success ?E poll_message" "\<not> NorMal ?E poll_message"
    by (simp_all add: ex_env_fields poll_message_def)
  have fetch: "Caller_WebWxSync ?E (Suc (tick ?b)) (Client ?b) (Request (Storage ?b)) (Response (Storage ?b))
                 (Storage.LoginInfo (Storage ?b)) = Inr ex_sync"
    by (simp add: ex_env_fields)
  have init: "Response (Storage ?b) = Some ex_init"
    by (simp add: ex_online_fields)
  have k: "WebWxSyncResponse.SyncKey ex_sync = ''k1''" "AddMsgList ex_sync = [''m1'', ''m2'']"
    by (simp_all add: ex_sync_def)
  from syncCheck_iter_cursor_then_dispatch [OF poll sel fetch init]
  show ?thesis
    by (auto simp add: k ex_online_fields ex_online_info)
qed

text \<open>
  C5. What \<^verbatim>\<open>syncCheck\<close> does with the answer \<open>p\<close> of a long-poll, on a bot that is
  alive. When \<open>p\<close> is not a success, \<^verbatim>\<open>syncCheck\<close> returns \<^verbatim>\<open>p.Err()\<close>, with no fetch
  and no handler. When \<open>p\<close> is a success and normal, the loop goes on from the bot as
  the poll left it, still alive: the next thing it does is the next poll. When \<open>p\<close> is
  a success and not normal and the fetch returns \<open>resp\<close>, the loop goes on from
  \<open>fetched resp (polled p b)\<close>: the cursor is the one of \<open>resp\<close>, and the handler has
  run once on each message of \<open>resp\<close>, in order, or not at all when there is none.
\<close>

theorem syncCheck_poll_response:
  assumes alive: "Alive b"
    and poll: "Caller_SyncCheck E (tick b) (Client b) (Request (Storage b)) (Storage.LoginInfo (Storage b))
                 (Response (Storage b)) = Inr p"
  shows "(\<not> Success E p \<longrightarrow> syncCheck (Suc n) E b = Some (Normal (Err E p, polled p b)))
       \<and> (Success E p \<and> NorMal E p \<longrightarrow>
            syncCheck (Suc n) E b = syncCheck n E (polled p b) \<and> Alive (polled p b))
       \<and> (Success E p \<and> \<not> NorMal E p
            \<and> Caller_WebWxSync E (Suc (tick b)) (Client b) (Request (Storage b)) (Response (Storage b))
                (Storage.LoginInfo (Storage b)) = Inr resp
            \<and> Response (Storage b) \<noteq> None \<longrightarrow>
            syncCheck (Suc n) E b = syncCheck n E (fetched resp (polled p b)))"
proof (intro conjI impI)
  assume "\<not> Success E p"
  then show "syncCheck (Suc n) E b = Some (Normal (Err E p, polled p b))"
    using alive by (simp add: syncCheck_iter_polled [OF poll])
next
  assume "Success E p \<and> NorMal E p"
  then show "syncCheck (Suc n) E b = syncCheck n E (polled p b)"
    using alive by (simp add: syncCheck_iter_polled [OF poll])
  show "Alive (polled p b)"
    using alive by (simp add: polled_fields)
next
  assume a: "Success E p \<and> \<not> NorMal E p
            \<and> Caller_WebWxSync E (Suc (tick b)) (Client b) (Request (Storage b)) (Response (Storage b))
                (Storage.LoginInfo (Storage b)) = Inr resp
            \<and> Response (Storage b) \<noteq> None"
  then obtain w where w: "Response (Storage b) = Some w" by auto
  have "syncCheck_iter E b = Continue (fetched resp (polled p b))"
    using poll a w by (intro syncCheck_iter_fetched) auto
  then show "syncCheck (Suc n) E b = syncCheck n E (fetched resp (polled p b))"
    using alive by simp
qed

theorem syncCheck_poll_response_witness:
  "syncCheck (Suc 0) (ex_env poll_logout None) ex_online
     = Some (Normal (Some (RetError 1100), polled poll_logout ex_online))
   \<and> syncCheck (Suc (Suc 0)) (ex_env poll_normal None) ex_online
       = syncCheck (Suc 0) (ex_env poll_normal None) (polled poll_normal ex_online)
   \<and> Alive (polled poll_normal ex_online)
   \<and> trace (polled poll_normal ex_online) = trace ex_online
         @ [Call_SyncCheck (Some ex_request) (Some ex_info) (Some ex_init)]
   \<and> syncCheck (Suc (Suc 0)) (ex_env poll_message None) ex_online
       = syncCheck (Suc 0) (ex_env poll_message None)
           (fetched ex_sync (polled poll_message ex_online))
   \<and> cursor (fetched ex_sync (polled poll_message ex_online)) = Some ''k1''
   \<and> trace (fetched ex_sync (polled poll_message ex_online)) = trace ex_online
         @ [Call_SyncCheck (Some ex_request) (Some ex_info) (Some ex_init),
            Call_WebWxSync (Some ex_request) (Some ex_init) (Some ex_info),
            Stored_SyncKey ''k1'']"
proof -
  have poll: "Caller_SyncCheck (ex_env p None) (tick ex_online) (Client ex_online) (Request (Storage ex_online))
                (Storage.LoginInfo (Storage ex_online)) (Response (Storage ex_online)) = Inr p"
    for p
    by (simp add: ex_env_fields ex_online_fields ex_online_info)
  have 1: "syncCheck (Suc 0) (ex_env poll_logout None) ex_online
     = Some (Normal (Some (RetError 1100), polled poll_logout ex_online))"
    using syncCheck_poll_response [OF Alive_ex_online poll, of poll_logout 0]
    by (simp add: ex_env_fields poll_logout_def ex_Err_def)
  have 2: "syncCheck (Suc (Suc 0)) (ex_env poll_normal None) ex_online
       = syncCheck (Suc 0) (ex_env poll_normal None) (polled poll_normal ex_online)
     \<and> Alive (polled poll_normal ex_online)"
    using syncCheck_poll_response [OF Alive_ex_online poll, of poll_normal "Suc 0"]
    by (simp add: ex_env_fields poll_normal_def)
  have 3: "syncCheck (Suc (Suc 0)) (ex_env poll_message None) ex_online
       = syncCheck (Suc 0) (ex_env poll_message None)
           (fetched ex_sync (polled poll_message ex_online))"
    using syncCheck_poll_response [OF Alive_ex_online poll, of poll_message "Suc 0" ex_sync]
    by (simp add: ex_env_fields poll_message_def ex_online_fields)
  have 4: "trace (polled poll_normal ex_online) = trace ex_online
         @ [Call_SyncCheck (Some ex_request) (Some ex_info) (Some ex_init)]"
    by (simp add: polled_def ex_online_fields ex_online_info)
  have 5: "cursor (fetched ex_sync (polled poll_message ex_online)) = Some ''k1''"
    by (simp add: cursor_def fetched_def polled_def ex_online_fields ex_sync_def)
  have 6: "trace (fetched ex_sync (polled poll_message ex_online)) = trace ex_online
         @ [Call_SyncCheck (Some ex_request) (Some ex_info) (Some ex_init),
            Call_WebWxSync (Some ex_request) (Some ex_init) (Some ex_info),
            Stored_SyncKey ''k1'']"
    by (simp add: fetched_def polled_def ex_online_fields ex_online_info ex_sync_def)
  from 1 2 3 4 5 6 show ?thesis by blast
qed

subsection \<open>The text of a snapshot\<close>

lemma unescape_escape: "unescape (escape s @ quote # rest) = Some (s, rest)"
  by (induction s) (auto simp add: quote_def backslash_def)

lemma decode_string_encode [simp]: "decode_string (encode_string s @ rest) = Some (s, rest)"
  by (simp add: decode_string_def encode_string_def unescape_escape)

lemma is_digit_digit: "d < 10 \<Longrightarrow> is_digit (digit d)"
  by (simp add: is_digit_def digit_def)

lemma value_digit: "d < 10 \<Longrightarrow> (of_char (digit d) :: nat) - 48 = d"
  by (simp add: digit_def)

lemma digits_all: "\<forall>c \<in> set (digits n). is_digit c"
proof (induction n rule: digits.induct)
  case (1 n)
  show ?case
  proof (cases "n < 10")
    case True
    then show ?thesis by (subst digits.simps) (simp add: is_digit_digit)
  next
    case False
    with 1 show ?thesis by (subst digits.simps) (simp add: is_digit_digit)
  qed
qed

lemma digits_not_Nil: "digits n \<noteq> []"
  by (subst digits.simps) simp

lemma number_digits: "number (digits n) = n"
proof (induction n rule: digits.induct)
  case (1 n)
  show ?case
  proof (cases "n < 10")
    case True
    then show ?thesis by (subst digits.simps) (simp add: number_def value_digit)
  next
    case False
    with 1 have "number (digits (n div 10)) = n div 10" by simp
    with False show ?thesis
      by (subst digits.simps) (simp add: number_def value_digit)
  qed
qed

lemma decode_nat_digits:
  "\<not> is_digit c \<Longrightarrow> decode_nat (digits n @ c # rest) = Some (n, c # rest)"
  using digits_all [of n]
  by (simp add: decode_nat_def digits_not_Nil number_digits)

lemma digits_no_minus: "hd (digits n) \<noteq> CHR ''-''"
proof -
  have "is_digit (hd (digits n))"
    using digits_all [of n] digits_not_Nil [of n] by (cases "digits n") auto
  then show ?thesis by (auto simp add: is_digit_def)
qed

lemma decode_int_encode:
  "\<not> is_digit c \<Longrightarrow> decode_int (encode_int i @ c # rest) = Some (i, c # rest)"
proof (cases "i < 0")
  case True
  assume "\<not> is_digit c"
  with True show ?thesis
    by (simp add: decode_int_def encode_int_def decode_nat_digits)
next
  case False
  assume c: "\<not> is_digit c"
  obtain d ds where ds: "digits (nat i) = d # ds"
    using digits_not_Nil [of "nat i"] by (cases "digits (nat i)") auto
  with digits_no_minus [of "nat i"] have "d \<noteq> CHR ''-''" by simp
  moreover have "decode_nat (d # ds @ c # rest) = Some (nat i, c # rest)"
    using decode_nat_digits [OF c, of "nat i" rest] ds by simp
  ultimately show ?thesis
    using False by (simp add: decode_int_def encode_int_def ds)
qed

lemma comma_not_digit [simp]: "\<not> is_digit (CHR '','')"
  by (simp add: is_digit_def)

lemma decode_BaseRequest_encode:
  "decode_BaseRequest (encode_BaseRequest r @ rest) = Some (r, rest)"
  by (simp add: decode_BaseRequest_def encode_BaseRequest_def key_def decode_int_encode)

lemma decode_LoginInfo_encode:
  "decode_LoginInfo (encode_LoginInfo r @ rest) = Some (r, rest)"
  by (simp add: decode_LoginInfo_def encode_LoginInfo_def key_def decode_int_encode)

lemma expect_null_BaseRequest: "expect ''null'' (encode_BaseRequest r @ rest) = None"
  by (simp add: encode_BaseRequest_def)

lemma expect_null_LoginInfo: "expect ''null'' (encode_LoginInfo r @ rest) = None"
  by (simp add: encode_LoginInfo_def)

lemma decode_pointer_BaseRequest:
  "decode_pointer decode_BaseRequest (encode_pointer encode_BaseRequest p @ rest) = Some (p, rest)"
  by (cases p)
    (simp_all add: decode_pointer_def encode_pointer_def expect_null_BaseRequest
      decode_BaseRequest_encode)

lemma decode_pointer_LoginInfo:
  "decode_pointer decode_LoginInfo (encode_pointer encode_LoginInfo p @ rest) = Some (p, rest)"
  by (cases p)
    (simp_all add: decode_pointer_def encode_pointer_def expect_null_LoginInfo
      decode_LoginInfo_encode)

lemma decode_item_Encode: "decode_item (Encode item @ rest) = Some (item, CHR 0x0A # rest)"
  by (simp add: decode_item_def Encode_def key_def decode_pointer_BaseRequest
      decode_pointer_LoginInfo)

lemma Encode_not_Nil: "Encode item \<noteq> []"
  by (simp add: Encode_def)

lemma Decode_Encode: "Decode (Encode item @ rest) = Inr item"
  by (simp add: Decode_def Encode_not_Nil decode_item_Encode)

lemma Decode_Nil: "Decode [] = Inl (ErrorString ''EOF'')"
  by (simp add: Decode_def)

subsection \<open>The snapshot\<close>

lemma reload_decoded:
  assumes "hotReloadStorage b = Some text" and "Decode text = Inr item"
  shows "reload b =
    (None,
     b\<lparr>hotReloadStorage := Some [],
       Client := (Client b)\<lparr>Client.Jar := HotReloadStorageItem.Jar item,
                            Domain := WechatDomain item\<rparr>,
       Storage := (Storage b)\<lparr>Storage.LoginInfo := HotReloadStorageItem.LoginInfo item,
                              Request := BaseRequest item\<rparr>,
       uuid := UUID item\<rparr>)"
  using assms by (simp add: reload_def Let_def AsCookieJar_def)

lemma reload_Response: "Response (Storage (snd (reload b))) = Response (Storage b)"
  by (simp add: reload_def Let_def split: option.splits sum.splits)

text \<open>
  What is read is gone: whatever the first \<^verbatim>\<open>reload\<close> returns, a second one from the same
  storage finds the end of the stream.
\<close>

lemma reload_twice:
  "hotReloadStorage b \<noteq> None \<Longrightarrow> fst (reload (snd (reload b))) = Some (ErrorString ''EOF'')"
  by (auto simp add: reload_def Let_def Decode_Nil split: sum.splits)

lemma WebInit_ok:
  assumes "Caller_WebInit E (tick b) (Client b) (Request (Storage b)) = Inr resp0"
    and "Caller_WebWxStatusNotify E (Suc (tick b)) (Client b) (Request (Storage b))
           (resp0\<lparr>User := formatEmoji E (User resp0)\<rparr>) (Storage.LoginInfo (Storage b)) = None"
  shows "WebInit E b =
    (None,
     b\<lparr>self := Some (formatEmoji E (User resp0)),
       Storage := (Storage b)\<lparr>Response := Some (resp0\<lparr>User := formatEmoji E (User resp0)\<rparr>)\<rparr>,
       once := True,
       tick := Suc (Suc (tick b)),
       trace := trace b @ [Call_WebInit (Request (Storage b)), Call_WebWxStatusNotify]
                  @ (if once b then [] else [Loop_Started])\<rparr>)"
  using assms by (simp add: WebInit_def Let_def called_def emit_def)

lemma cursor_ex_online: "cursor ex_online = Some ''k0''"
  by (simp add: cursor_def ex_online_def ex_init_def)

lemma ex_resuming_fields:
  "hotReloadStorage ex_resuming = Some (snd (DumpTo ex_online []) @ [])"
  "\<not> context_done ex_resuming" "tick ex_resuming = 0" "trace ex_resuming = []"
  "\<not> once ex_resuming" "uuid ex_resuming = []"
  "Client ex_resuming = \<lparr>Client.Jar = [], Domain = ''wx2.qq.com''\<rparr>"
  by (simp_all add: ex_resuming_def ex_resumed_def NewBot_def)

lemma ex_online_snapshot:
  "Request (Storage ex_online) = Some ex_request"
  "Storage.LoginInfo (Storage ex_online) = Some ex_info"
  "Client ex_online = ex_client" "uuid ex_online = ''abc123''"
  by (simp_all add: ex_online_def)

text \<open>
  C8. \<^verbatim>\<open>DumpTo\<close> into an empty writer followed by \<^verbatim>\<open>reload\<close> from what was written
  (whatever else follows it in the storage) succeeds, for every bot that dumps and every
  bot that reloads, and gives the
  reloading bot the \<^verbatim>\<open>BaseRequest\<close>, the \<^verbatim>\<open>LoginInfo\<close>, the domain, the UUID and the
  cookie jar of the dumping bot, with no transport call. When the remote service then
  accepts the initialisation of \<^verbatim>\<open>WebInit\<close>, asked with the client and the credentials
  of the dumping bot, the reloading bot is alive, the only transport calls it has made
  are the two of \<^verbatim>\<open>WebInit\<close> (the login exchange \<^verbatim>\<open>GetLoginInfo\<close> is not among them), and
  its long-poll is the call of the transport with the client, the \<^verbatim>\<open>BaseRequest\<close> and the
  \<^verbatim>\<open>LoginInfo\<close> of the dumping bot: when that call answers a normal success,
  \<^verbatim>\<open>syncCheck\<close> goes on to the next poll.
\<close>

theorem dump_reload_round_trip:
  assumes store: "hotReloadStorage b2 = Some (snd (DumpTo b []) @ rest)"
  shows "fst (DumpTo b []) = None
       \<and> fst (reload b2) = None
       \<and> Request (Storage (snd (reload b2))) = Request (Storage b)
       \<and> Storage.LoginInfo (Storage (snd (reload b2))) = Storage.LoginInfo (Storage b)
       \<and> Domain (Client (snd (reload b2))) = Domain (Client b)
       \<and> uuid (snd (reload b2)) = uuid b
       \<and> Client.Jar (Client (snd (reload b2))) = Client.Jar (Client b)
       \<and> tick (snd (reload b2)) = tick b2
       \<and> trace (snd (reload b2)) = trace b2
       \<and> (\<not> context_done b2
            \<and> Caller_WebInit E (tick b2) (Client b) (Request (Storage b)) = Inr resp0
            \<and> Caller_WebWxStatusNotify E (Suc (tick b2)) (Client b) (Request (Storage b))
                (resp0\<lparr>User := formatEmoji E (User resp0)\<rparr>) (Storage.LoginInfo (Storage b))
                = None
          \<longrightarrow> fst (WebInit E (snd (reload b2))) = None
            \<and> Alive (snd (WebInit E (snd (reload b2))))
            \<and> trace (snd (WebInit E (snd (reload b2))))
                = trace b2 @ [Call_WebInit (Request (Storage b)), Call_WebWxStatusNotify]
                    @ (if once b2 then [] else [Loop_Started])
            \<and> (Caller_SyncCheck E (Suc (Suc (tick b2))) (Client b) (Request (Storage b))
                  (Storage.LoginInfo (Storage b))
                  (Some (resp0\<lparr>User := formatEmoji E (User resp0)\<rparr>)) = Inr p
                \<and> Success E p \<and> NorMal E p
              \<longrightarrow> syncCheck (Suc n) E (snd (WebInit E (snd (reload b2))))
                    = syncCheck n E (polled p (snd (WebInit E (snd (reload b2)))))))"
proof -
  define b3 where "b3 = snd (reload b2)"
  define b4 where "b4 = snd (WebInit E b3)"
  have d: "DumpTo b [] = (None, Encode (DumpTo_item b))"
    by (simp add: DumpTo_def)
  have "Decode (Encode (DumpTo_item b) @ rest) = Inr (DumpTo_item b)"
    by (rule Decode_Encode)
  with store d have r: "reload b2 =
    (None,
     b2\<lparr>hotReloadStorage := Some [],
       Client := (Client b2)\<lparr>Client.Jar := HotReloadStorageItem.Jar (DumpTo_item b),
                            Domain := WechatDomain (DumpTo_item b)\<rparr>,
       Storage := (Storage b2)\<lparr>Storage.LoginInfo :=
                                 HotReloadStorageItem.LoginInfo (DumpTo_item b),
                              Request := BaseRequest (DumpTo_item b)\<rparr>,
       uuid := UUID (DumpTo_item b)\<rparr>)"
    by (intro reload_decoded) simp_all
  have f: "fst (reload b2) = None" "Request (Storage b3) = Request (Storage b)"
    "Storage.LoginInfo (Storage b3) = Storage.LoginInfo (Storage b)"
    "Domain (Client b3) = Domain (Client b)" "uuid b3 = uuid b"
    "Client.Jar (Client b3) = Client.Jar (Client b)"
    "tick b3 = tick b2" "trace b3 = trace b2" "once b3 = once b2"
    "context_done b3 = context_done b2"
    by (simp_all add: b3_def r DumpTo_item_def GetCookieJar_def)
  have c: "Client b3 = Client b"
    using f(4) f(6) by (cases "Client b3", cases "Client b") simp
  have w: "fst (WebInit E b3) = None
            \<and> Alive b4
            \<and> trace b4
                = trace b2 @ [Call_WebInit (Request (Storage b)), Call_WebWxStatusNotify]
                    @ (if once b2 then [] else [Loop_Started])
            \<and> (Caller_SyncCheck E (Suc (Suc (tick b2))) (Client b) (Request (Storage b))
                  (Storage.LoginInfo (Storage b))
                  (Some (resp0\<lparr>User := formatEmoji E (User resp0)\<rparr>)) = Inr p
                \<and> Success E p \<and> NorMal E p
              \<longrightarrow> syncCheck (Suc n) E b4 = syncCheck n E (polled p b4))"
    if live: "\<not> context_done b2"
      and init: "Caller_WebInit E (tick b2) (Client b) (Request (Storage b)) = Inr resp0"
      and notify: "Caller_WebWxStatusNotify E (Suc (tick b2)) (Client b) (Request (Storage b))
                (resp0\<lparr>User := formatEmoji E (User resp0)\<rparr>) (Storage.LoginInfo (Storage b))
                = None"
  proof -
    have wi: "WebInit E b3 =
      (None,
       b3\<lparr>self := Some (formatEmoji E (User resp0)),
         Storage := (Storage b3)\<lparr>Response := Some (resp0\<lparr>User := formatEmoji E (User resp0)\<rparr>)\<rparr>,
         once := True,
         tick := Suc (Suc (tick b3)),
         trace := trace b3 @ [Call_WebInit (Request (Storage b3)), Call_WebWxStatusNotify]
                    @ (if once b3 then [] else [Loop_Started])\<rparr>)"
      using init notify by (intro WebInit_ok) (simp_all add: f c)
    have g: "Alive b4" "tick b4 = Suc (Suc (tick b2))" "Client b4 = Client b"
      "Request (Storage b4) = Request (Storage b)"
      "Storage.LoginInfo (Storage b4) = Storage.LoginInfo (Storage b)"
      "Response (Storage b4) = Some (resp0\<lparr>User := formatEmoji E (User resp0)\<rparr>)"
      "trace b4 = trace b2 @ [Call_WebInit (Request (Storage b)), Call_WebWxStatusNotify]
                    @ (if once b2 then [] else [Loop_Started])"
      using live by (simp_all add: b4_def wi f c Alive_def)
    have "syncCheck (Suc n) E b4 = syncCheck n E (polled p b4)"
      if "Caller_SyncCheck E (Suc (Suc (tick b2))) (Client b) (Request (Storage b))
                  (Storage.LoginInfo (Storage b))
                  (Some (resp0\<lparr>User := formatEmoji E (User resp0)\<rparr>)) = Inr p"
        and "Success E p" "NorMal E p"
    proof -
      have "Caller_SyncCheck E (tick b4) (Client b4) (Request (Storage b4))
              (Storage.LoginInfo (Storage b4)) (Response (Storage b4)) = Inr p"
        using that(1) by (simp add: g)
      then have "syncCheck_iter E b4 = Continue (polled p b4)"
        using that(2,3) by (simp add: syncCheck_iter_polled)
      then show ?thesis
        using g(1) by simp
    qed
    then show ?thesis
      using g by (simp add: wi)
  qed
  show ?thesis
    using d f(1-8) w unfolding b3_def b4_def by (simp del: syncCheck.simps)
qed

theorem dump_reload_round_trip_witness:
  "hotReloadStorage ex_resuming = Some (snd (DumpTo ex_online []) @ [])
   \<and> uuid ex_resuming = []
   \<and> Client ex_resuming = \<lparr>Client.Jar = [], Domain = ''wx2.qq.com''\<rparr>
   \<and> fst (reload ex_resuming) = None
   \<and> Request (Storage (snd (reload ex_resuming))) = Some ex_request
   \<and> Storage.LoginInfo (Storage (snd (reload ex_resuming))) = Some ex_info
   \<and> Domain (Client (snd (reload ex_resuming))) = Domain ex_client
   \<and> Client.Jar (Client (snd (reload ex_resuming))) = Client.Jar ex_client
   \<and> uuid (snd (reload ex_resuming)) = ''abc123''
   \<and> Alive (snd (WebInit (ex_env poll_normal None) (snd (reload ex_resuming))))
   \<and> trace (snd (WebInit (ex_env poll_normal None) (snd (reload ex_resuming))))
       = [Call_WebInit (Some ex_request), Call_WebWxStatusNotify, Loop_Started]
   \<and> syncCheck (Suc (Suc 0)) (ex_env poll_normal None)
        (snd (WebInit (ex_env poll_normal None) (snd (reload ex_resuming))))
       = syncCheck (Suc 0) (ex_env poll_normal None)
          (polled poll_normal
            (snd (WebInit (ex_env poll_normal None) (snd (reload ex_resuming)))))"
proof -
  let ?E = "ex_env poll_normal None"
  note on = ex_online_snapshot
  note new = ex_resuming_fields
  have init: "Caller_WebInit ?E (tick ex_resuming) (Client ex_online)
                (Request (Storage ex_online)) = Inr ex_init"
    by (simp add: ex_env_fields on)
  have notify: "Caller_WebWxStatusNotify ?E (Suc (tick ex_resuming)) (Client ex_online)
                (Request (Storage ex_online))
                (ex_init\<lparr>User := formatEmoji ?E (User ex_init)\<rparr>)
                (Storage.LoginInfo (Storage ex_online)) = None"
    by (simp add: ex_env_fields)
  have poll: "Caller_SyncCheck ?E (Suc (Suc (tick ex_resuming))) (Client ex_online)
                (Request (Storage ex_online)) (Storage.LoginInfo (Storage ex_online))
                (Some (ex_init\<lparr>User := formatEmoji ?E (User ex_init)\<rparr>)) = Inr poll_normal"
    by (simp add: ex_env_fields on)
  have sel: "Success ?E poll_normal" "NorMal ?E poll_normal"
    by (simp_all add: ex_env_fields poll_normal_def)
  note T = dump_reload_round_trip [OF new(1), of ?E ex_init poll_normal "Suc 0"]
  from T have 1: "fst (reload ex_resuming) = None"
    and 2: "Request (Storage (snd (reload ex_resuming))) = Request (Storage ex_online)"
    and 3: "Storage.LoginInfo (Storage (snd (reload ex_resuming)))
              = Storage.LoginInfo (Storage ex_online)"
    and 4: "Domain (Client (snd (reload ex_resuming))) = Domain (Client ex_online)"
    and 5: "uuid (snd (reload ex_resuming)) = uuid ex_online"
    and 6: "Client.Jar (Client (snd (reload ex_resuming))) = Client.Jar (Client ex_online)"
    by blast+
  from T new(2) init notify
  have 7: "Alive (snd (WebInit ?E (snd (reload ex_resuming))))"
    and 8: "trace (snd (WebInit ?E (snd (reload ex_resuming))))
                = trace ex_resuming
                    @ [Call_WebInit (Request (Storage ex_online)), Call_WebWxStatusNotify]
                    @ (if once ex_resuming then [] else [Loop_Started])"
    by blast+
  from T new(2) init notify poll sel
  have 9: "syncCheck (Suc (Suc 0)) ?E (snd (WebInit ?E (snd (reload ex_resuming))))
       = syncCheck (Suc 0) ?E
          (polled poll_normal (snd (WebInit ?E (snd (reload ex_resuming)))))"
    by blast
  from 8 have tr: "trace (snd (WebInit ?E (snd (reload ex_resuming))))
       = [Call_WebInit (Some ex_request), Call_WebWxStatusNotify, Loop_Started]"
    by (simp add: new on)
  from new 1 2 3 4 5 6 7 tr 9 show ?thesis
    unfolding on by blast
qed

text \<open>
  C2, as amended. The snapshot that \<^verbatim>\<open>DumpTo\<close> writes is the text of a record of five
  values, the \<^verbatim>\<open>BaseRequest\<close>, the cookie jar, the \<^verbatim>\<open>LoginInfo\<close>, the domain and the UUID
  of the bot, which is what decoding it gives back; the sync cursor is not in it. What
  is written does not depend on \<^verbatim>\<open>b.Storage.Response\<close>, and \<^verbatim>\<open>reload\<close> leaves the
  response, and so the cursor, of the reloading bot as it was.
\<close>

theorem snapshot_leaves_cursor_out:
  "DumpTo b writer
     = (None, writer @ Encode
         \<lparr>BaseRequest = Request (Storage b),
          HotReloadStorageItem.Jar = Client.Jar (Client b),
          HotReloadStorageItem.LoginInfo = Storage.LoginInfo (Storage b),
          WechatDomain = Domain (Client b),
          UUID = uuid b\<rparr>)
   \<and> Decode (snd (DumpTo b []))
     = Inr \<lparr>BaseRequest = Request (Storage b),
            HotReloadStorageItem.Jar = Client.Jar (Client b),
            HotReloadStorageItem.LoginInfo = Storage.LoginInfo (Storage b),
            WechatDomain = Domain (Client b),
            UUID = uuid b\<rparr>
   \<and> DumpTo (b\<lparr>Storage := (Storage b)\<lparr>Response := r\<rparr>\<rparr>) writer = DumpTo b writer
   \<and> Response (Storage (snd (reload b2))) = Response (Storage b2)
   \<and> cursor (snd (reload b2)) = cursor b2"
proof -
  have "Decode (Encode (DumpTo_item b) @ []) = Inr (DumpTo_item b)"
    by (rule Decode_Encode)
  then show ?thesis
    by (simp add: DumpTo_def DumpTo_item_def GetCookieJar_def reload_Response cursor_def)
qed

text \<open>
  C2, as claimed, fails: the logged-in bot has the cursor \<open>k0\<close>, and a new bot that
  reloads what this bot dumped has no cursor.
\<close>

theorem cursor_survives_reload_counterexample:
  "fst (DumpTo ex_online []) = None
   \<and> hotReloadStorage ex_resuming = Some (snd (DumpTo ex_online []))
   \<and> fst (reload ex_resuming) = None
   \<and> cursor (snd (reload ex_resuming)) \<noteq> cursor ex_online"
proof -
  have "Response (Storage ex_resuming) = None"
    by (simp add: ex_resuming_def ex_resumed_def NewBot_def)
  then have "cursor (snd (reload ex_resuming)) = None"
    by (simp add: cursor_def reload_Response)
  moreover have "Decode (Encode (DumpTo_item ex_online) @ []) = Inr (DumpTo_item ex_online)"
    by (rule Decode_Encode)
  then have "fst (reload ex_resuming) = None"
    by (simp add: reload_def Let_def DumpTo_def ex_resuming_fields)
  ultimately show ?thesis
    by (simp add: DumpTo_def cursor_ex_online ex_resuming_fields)
qed

subsection \<open>The start-once guard\<close>

lemma count_handlers: "count_list (map (\<lambda>m. Ran_MessageHandler m k) ms) Loop_Started = 0"
  by (induction ms) simp_all

lemma loop_called:
  "ev \<noteq> Loop_Started \<Longrightarrow>
   once (called ev b) = once b \<and> loops_started (called ev b) = loops_started b"
  by (simp add: called_def loops_started_def)

lemma loop_Exit: "once (Exit b) = once b \<and> loops_started (Exit b) = loops_started b"
  by (simp add: Exit_def Let_def emit_def loops_started_def)

lemma loop_Logout:
  "once (snd (Logout E b)) = once b \<and> loops_started (snd (Logout E b)) = loops_started b"
  by (simp add: Logout_def Let_def loop_Exit loop_called split: option.splits)

lemma loop_reload:
  "once (snd (reload b)) = once b \<and> loops_started (snd (reload b)) = loops_started b"
  by (simp add: reload_def Let_def loops_started_def split: option.splits sum.splits)

lemma loop_DumpHotReloadStorage:
  "once (snd (DumpHotReloadStorage b)) = once b
   \<and> loops_started (snd (DumpHotReloadStorage b)) = loops_started b"
  by (simp add: DumpHotReloadStorage_def loops_started_def split: option.splits prod.splits)

lemma loop_syncMessage:
  "syncMessage E b = Normal (r, b') \<Longrightarrow> once b' = once b \<and> loops_started b' = loops_started b"
  by (auto simp add: syncMessage_def Let_def called_def emit_def loops_started_def
      split: sum.splits option.splits)

lemma loop_dispatch:
  "once (dispatch b ms) = once b \<and> loops_started (dispatch b ms) = loops_started b"
  by (simp add: dispatch_eq loops_started_def count_handlers)

lemma loop_syncCheck_iter:
  "once (apply_op E Do_syncCheck_iter b) = once b
   \<and> loops_started (apply_op E Do_syncCheck_iter b) = loops_started b"
proof -
  define req where "req = Call_SyncCheck (Request (Storage b)) (Storage.LoginInfo (Storage b))
                 (Response (Storage b))"
  have c: "once (called req b) = once b \<and> loops_started (called req b) = loops_started b"
    by (simp add: loop_called req_def)
  have e: "once (emit (Ran_SyncCheckCallback p) (called req b)) = once b
      \<and> loops_started (emit (Ran_SyncCheckCallback p) (called req b)) = loops_started b" for p
    using c by (simp add: emit_def loops_started_def)
  have m: "once b3 = once b \<and> loops_started b3 = loops_started b"
    if "syncMessage E b2 = Normal (r, b3)"
      and "once b2 = once b \<and> loops_started b2 = loops_started b" for b2 b3 r
    using loop_syncMessage [OF that(1)] that(2) by simp
  show ?thesis
    using c e
    by (auto simp add: syncCheck_iter_def Let_def req_def [symmetric] loop_dispatch
        split: sum.splits outcome.splits prod.splits dest!: m)
qed

lemma loop_MessageErrorHandler:
  "once (apply_op E (Do_MessageErrorHandler e) b) = once b
   \<and> loops_started (apply_op E (Do_MessageErrorHandler e) b) = loops_started b"
  using loop_Logout [of E b]
  by (auto simp add: call_MessageErrorHandler_def defaultSyncCheckErrHandler_def
      loops_started_def split: option.splits ErrHandler.splits)

lemma loop_WebInit:
  "(once b \<longrightarrow> once (snd (WebInit E b)) \<and> loops_started (snd (WebInit E b)) = loops_started b)
   \<and> (\<not> once b \<longrightarrow> loops_started (snd (WebInit E b))
         = loops_started b + (if once (snd (WebInit E b)) then 1 else 0))"
  by (simp add: WebInit_def Let_def called_def emit_def loops_started_def
      split: sum.splits option.splits)

lemma loop_HandleLogin:
  "(once b \<longrightarrow> once (snd (HandleLogin E d b))
        \<and> loops_started (snd (HandleLogin E d b)) = loops_started b)
   \<and> (\<not> once b \<longrightarrow> loops_started (snd (HandleLogin E d b))
         = loops_started b + (if once (snd (HandleLogin E d b)) then 1 else 0))"
proof -
  have pre: "once b' = once b \<and> loops_started b' = loops_started b
    \<Longrightarrow> (once b \<longrightarrow> once (snd (WebInit E b'))
          \<and> loops_started (snd (WebInit E b')) = loops_started b)
       \<and> (\<not> once b \<longrightarrow> loops_started (snd (WebInit E b'))
         = loops_started b + (if once (snd (WebInit E b')) then 1 else 0))" for b'
    using loop_WebInit [of b' E] by simp
  define b1 where "b1 = called (Call_GetLoginInfo d) b"
  have b1: "once b1 = once b \<and> loops_started b1 = loops_started b"
    by (simp add: b1_def loop_called)
  show ?thesis
  proof (cases "Caller_GetLoginInfo E (tick b) (Client b) d")
    case (Inl e)
    then show ?thesis
      using b1 by (simp add: HandleLogin_def Let_def b1_def)
  next
    case (Inr info)
    define b2 where "b2 = b1\<lparr>Storage := (Storage b1)\<lparr>Storage.LoginInfo := Some info\<rparr>\<rparr>"
    define b3 where "b3 = (if deviceId b2 = [] then b2\<lparr>deviceId := GetRandomDeviceId E (tick b2)\<rparr>
                        else b2)"
    define b4 where "b4 = b3\<lparr>Storage := (Storage b3)\<lparr>Request :=
       Some \<lparr>Uin = WxUin info, Sid = WxSid info, Skey = SKey info, DeviceID = deviceId b3\<rparr>\<rparr>\<rparr>"
    have b4: "once b4 = once b \<and> loops_started b4 = loops_started b"
      using b1 by (simp add: b4_def b3_def b2_def loops_started_def)
    have hl: "HandleLogin E d b =
        (if hotReloadStorage b4 \<noteq> None then
           (case DumpHotReloadStorage b4 of
              (Some e, b5) \<Rightarrow> (Some e, b5)
            | (None, b5) \<Rightarrow> WebInit E b5)
         else WebInit E b4)"
      using Inr by (auto simp add: HandleLogin_def Let_def b4_def b3_def b2_def b1_def)
    show ?thesis
    proof (cases "hotReloadStorage b4 \<noteq> None")
      case False
      then show ?thesis
        using pre [OF b4] by (simp add: hl)
    next
      case True
      obtain r b5 where d5: "DumpHotReloadStorage b4 = (r, b5)"
        by (cases "DumpHotReloadStorage b4")
      have b5: "once b5 = once b \<and> loops_started b5 = loops_started b"
        using loop_DumpHotReloadStorage [of b4] b4 by (simp add: d5)
      show ?thesis
      proof (cases r)
        case None
        then show ?thesis
          using pre [OF b5] True by (simp add: hl d5)
      next
        case (Some e)
        then show ?thesis
          using b5 True by (simp add: hl d5)
      qed
    qed
  qed
qed

lemma loop_apply_op:
  "(once b \<longrightarrow> once (apply_op E x b) \<and> loops_started (apply_op E x b) = loops_started b)
   \<and> (\<not> once b \<longrightarrow> loops_started (apply_op E x b)
         = loops_started b + (if once (apply_op E x b) then 1 else 0))"
proof (cases x)
  case (Set_hotReloadStorage s)
  then show ?thesis by (simp add: loops_started_def)
next
  case (Do_HandleLogin d)
  then show ?thesis using loop_HandleLogin [of b E d] by simp
next
  case Do_WebInit
  then show ?thesis using loop_WebInit [of b E] by simp
next
  case Do_reload
  then show ?thesis using loop_reload [of b] by simp
next
  case Do_DumpHotReloadStorage
  then show ?thesis using loop_DumpHotReloadStorage [of b] by simp
next
  case Do_Logout
  then show ?thesis using loop_Logout [of E b] by simp
next
  case Do_Exit
  then show ?thesis using loop_Exit [of b] by simp
next
  case Do_cancel
  then show ?thesis by (simp add: loops_started_def)
next
  case Do_syncCheck_iter
  then show ?thesis using loop_syncCheck_iter [of E b] by simp
next
  case (Do_MessageErrorHandler e)
  then show ?thesis using loop_MessageErrorHandler [of E e b] by simp
qed

lemma run_append: "run E (xs @ ys) b = run E ys (run E xs b)"
  by (induction xs arbitrary: b) simp_all

lemma loop_run_once:
  "once b \<Longrightarrow> once (run E xs b) \<and> loops_started (run E xs b) = loops_started b"
proof (induction xs arbitrary: b)
  case Nil
  then show ?case by simp
next
  case (Cons x xs)
  from Cons.prems loop_apply_op [of b E x]
  have "once (apply_op E x b)" "loops_started (apply_op E x b) = loops_started b"
    by simp_all
  with Cons.IH [of "apply_op E x b"] show ?case by simp
qed

lemma loop_run_guard:
  "loops_started b = (if once b then 1 else 0) \<Longrightarrow>
   loops_started (run E xs b) = (if once (run E xs b) then 1 else 0)"
proof (induction xs arbitrary: b)
  case Nil
  then show ?case by simp
next
  case (Cons x xs)
  from Cons.prems loop_apply_op [of b E x]
  have "loops_started (apply_op E x b) = (if once (apply_op E x b) then 1 else 0)"
    by (cases "once b") simp_all
  with Cons.IH [of "apply_op E x b"] show ?case by simp
qed

lemma guard_NewBot: "loops_started (NewBot d c) = (if once (NewBot d c) then 1 else 0)"
  by (simp add: NewBot_def loops_started_def)

text \<open>
  C7. Whatever is done to a bot made by \<^verbatim>\<open>NewBot\<close>, in whatever order (logins, reloads,
  \<^verbatim>\<open>WebInit\<close> again, dumps, logouts, exits, polls), the background task is started at most
  once: it has been started once when \<^verbatim>\<open>b.once\<close> is used and never otherwise. Once
  \<^verbatim>\<open>b.once\<close> is used it stays used and no further task is started, and \<^verbatim>\<open>reload\<close> does
  not touch it.
\<close>

theorem sync_loop_started_at_most_once:
  "loops_started (run E xs (NewBot d c)) = (if once (run E xs (NewBot d c)) then 1 else 0)
   \<and> loops_started (run E xs (NewBot d c)) \<le> 1
   \<and> (once (run E xs (NewBot d c)) \<longrightarrow>
        once (run E (xs @ ys) (NewBot d c))
        \<and> loops_started (run E (xs @ ys) (NewBot d c)) = loops_started (run E xs (NewBot d c)))
   \<and> once (snd (reload b)) = once b"
proof -
  have g: "loops_started (run E xs (NewBot d c)) = (if once (run E xs (NewBot d c)) then 1 else 0)"
    using guard_NewBot by (rule loop_run_guard)
  have m: "once (run E (xs @ ys) (NewBot d c))
        \<and> loops_started (run E (xs @ ys) (NewBot d c)) = loops_started (run E xs (NewBot d c))"
    if "once (run E xs (NewBot d c))"
    using loop_run_once [OF that, of E ys] by (simp add: run_append)
  show ?thesis
    using g m loop_reload [of b] by simp
qed

theorem sync_loop_started_at_most_once_witness:
  "once (run (ex_env poll_normal None) [Do_HandleLogin ''ticket''] (NewBot False ex_client))
   \<and> once (run (ex_env poll_normal None)
        ([Do_HandleLogin ''ticket'']
          @ [Set_hotReloadStorage (Some []), Do_DumpHotReloadStorage, Do_reload, Do_WebInit])
        (NewBot False ex_client))
   \<and> loops_started (run (ex_env poll_normal None)
        ([Do_HandleLogin ''ticket'']
          @ [Set_hotReloadStorage (Some []), Do_DumpHotReloadStorage, Do_reload, Do_WebInit])
        (NewBot False ex_client)) = 1"
proof -
  let ?E = "ex_env poll_normal None"
  have "once (snd (HandleLogin ?E ''ticket'' (NewBot False ex_client)))"
    by (simp add: HandleLogin_def WebInit_def called_def emit_def Let_def ex_env_def NewBot_def
        ex_request_def ex_info_def)
  then have o: "once (run ?E [Do_HandleLogin ''ticket''] (NewBot False ex_client))"
    by simp
  from o sync_loop_started_at_most_once [of ?E "[Do_HandleLogin ''ticket'']" False ex_client
      "[Set_hotReloadStorage (Some []), Do_DumpHotReloadStorage, Do_reload, Do_WebInit]"]
  show ?thesis
    by simp
qed

subsection \<open>The background task on a fatal status\<close>

text \<open>
  The logged-in bot, whose long-poll answers the status 1100 (\<^verbatim>\<open>failedLoginWarn\<close>): the
  background task hands the error to the default handler and, with fuel for its two
  loops, returns. When the remote logout succeeds the bot it leaves has gone through
  \<^verbatim>\<open>Exit\<close>; when the remote logout fails it has not. In both cases the error is kept in
  \<^verbatim>\<open>b.err\<close>.
\<close>

lemma background_task_fatal:
  "background_task (Suc (Suc 0)) (ex_env poll_logout logout) ex_online
     = Some (Normal
         ((case logout of
             None \<Rightarrow> Exit (called (Call_Logout (Some ex_info))
               (polled poll_logout (ex_online\<lparr>MessageErrorHandler := Some DefaultHandler\<rparr>)))
           | Some e \<Rightarrow> called (Call_Logout (Some ex_info))
               (polled poll_logout (ex_online\<lparr>MessageErrorHandler := Some DefaultHandler\<rparr>)))
          \<lparr>err := Some (RetError 1100)\<rparr>))"
proof -
  let ?E = "ex_env poll_logout logout"
  let ?b = "ex_online\<lparr>MessageErrorHandler := Some DefaultHandler\<rparr>"
  let ?c = "called (Call_Logout (Some ex_info)) (polled poll_logout ?b)"
  have h: "MessageErrorHandler ex_online = None"
    by (simp add: ex_online_def)
  have a: "Alive ?b"
    using Alive_ex_online by (auto simp add: Alive_def split: if_splits)
  have poll: "Caller_SyncCheck ?E (tick ?b) (Client ?b) (Request (Storage ?b)) (Storage.LoginInfo (Storage ?b))
                (Response (Storage ?b)) = Inr poll_logout"
    by (simp add: ex_env_fields ex_online_fields ex_online_info)
  have it: "syncCheck_iter ?E ?b = Return (Some (RetError 1100)) (polled poll_logout ?b)"
    by (subst syncCheck_iter_polled [OF poll]) (simp add: ex_env_fields poll_logout_def ex_Err_def)
  have sc: "syncCheck (Suc 0) ?E ?b = Some (Normal (Some (RetError 1100), polled poll_logout ?b))"
    using a by (simp add: it)
  have f: "fatal ?E 1100"
    by (simp add: fatal_def ex_env_def)
  have pa: "Alive (polled poll_logout ?b)"
    using a by (simp add: polled_fields)
  have cl: "Caller_Logout ?E = (\<lambda>t c info. logout)"
    by (simp add: ex_env_def)
  have lo: "snd (Logout ?E (polled poll_logout ?b))
     = (case logout of None \<Rightarrow> Exit ?c | Some e \<Rightarrow> ?c)"
    using pa by (simp add: Logout_def Let_def polled_fields ex_online_info cl split: option.splits)
  have mh: "MessageErrorHandler (polled poll_logout ?b) = Some DefaultHandler"
    by (simp add: polled_def)
  have hd: "call_MessageErrorHandler ?E (RetError 1100) (polled poll_logout ?b)
     = Normal (False, case logout of None \<Rightarrow> Exit ?c | Some e \<Rightarrow> ?c)"
    by (simp add: call_MessageErrorHandler_def mh defaultSyncCheckErrHandler_def f lo)
  have "sync_loop (Suc (Suc 0)) ?E ?b
     = Some (Normal ((case logout of None \<Rightarrow> Exit ?c | Some e \<Rightarrow> ?c)\<lparr>err := Some (RetError 1100)\<rparr>))"
    by (simp add: sc hd del: syncCheck.simps)
  then show ?thesis
    by (simp add: background_task_def h)
qed

text \<open>
  C1. The claim is that a fatal classification leaves the bot exited even when the
  remote logout call fails. On the code it does not: \<^verbatim>\<open>Logout\<close> returns the error of
  \<^verbatim>\<open>Caller.Logout\<close> before it reaches \<^verbatim>\<open>Exit\<close>, and the handler drops that error. Here
  the logged-in bot gets the status code 1100 (\<^verbatim>\<open>failedLoginWarn\<close>) while the remote
  logout answers \<^verbatim>\<open>EOF\<close>: the handler says stop, and the bot it leaves is still alive,
  with \<^verbatim>\<open>Block\<close> waiting. The same holds for the whole background task from the poll
  on: it ends, the error is in \<^verbatim>\<open>b.err\<close>, and \<^verbatim>\<open>Block\<close> still waits.
\<close>

theorem fatal_status_remote_logout_fails:
  "defaultSyncCheckErrHandler (ex_env poll_logout (Some (ErrorString ''EOF''))) (RetError 1100)
       ex_online
     = (False, called (Call_Logout (Some ex_info)) ex_online)
   \<and> Alive (called (Call_Logout (Some ex_info)) ex_online)
   \<and> Block (called (Call_Logout (Some ex_info)) ex_online) = Waiting
   \<and> background_task (Suc (Suc 0)) (ex_env poll_logout (Some (ErrorString ''EOF''))) ex_online
       = Some (Normal
           ((called (Call_Logout (Some ex_info))
              (polled poll_logout (ex_online\<lparr>MessageErrorHandler := Some DefaultHandler\<rparr>)))
            \<lparr>err := Some (RetError 1100)\<rparr>))
   \<and> Alive ((called (Call_Logout (Some ex_info))
              (polled poll_logout (ex_online\<lparr>MessageErrorHandler := Some DefaultHandler\<rparr>)))
            \<lparr>err := Some (RetError 1100)\<rparr>)
   \<and> Block ((called (Call_Logout (Some ex_info))
              (polled poll_logout (ex_online\<lparr>MessageErrorHandler := Some DefaultHandler\<rparr>)))
            \<lparr>err := Some (RetError 1100)\<rparr>) = Waiting"
proof -
  have f: "fatal (ex_env poll_logout (Some (ErrorString ''EOF''))) 1100"
    by (simp add: fatal_def ex_env_def)
  have w: "Block ex_online = Waiting"
    by (simp add: Block_def ex_online_def)
  have keep: "Alive (b\<lparr>err := x\<rparr>) = Alive b" "Block (b\<lparr>err := x\<rparr>) = Block b"
    "Alive (b\<lparr>MessageErrorHandler := y\<rparr>) = Alive b"
    "Block (b\<lparr>MessageErrorHandler := y\<rparr>) = Block b"
    "Block (polled p b) = Block b" for b x y p
    by (simp_all add: Alive_def Block_def polled_def)
  show ?thesis
    by (simp add: defaultSyncCheckErrHandler_def f Logout_ex_online Alive_called Block_called
        Alive_ex_online w background_task_fatal keep polled_fields del: One_nat_def)
qed

end
